theory Spec2Isabelle
  imports Complex_Main "HOL-Library.AList"
begin

section \<open>Values of the Go runtime and of the libraries the exporter is built on\<close>

text \<open>
  A \<open>time.Time\<close> is an instant, counted in nanoseconds from the zero \<open>Time\<close> (so the zero
  value of a \<open>time.Time\<close> field is \<open>0\<close>). A \<open>time.Duration\<close> is an \<open>int64\<close> count of
  nanoseconds; the only arithmetic the collector does on durations is \<open>Time.Sub\<close>, which
  saturates at the ends of the \<open>int64\<close> range, so a duration is an \<open>int\<close> and the saturation
  is written out. A \<open>float64\<close> is carried as a \<open>real\<close>: the collector only stores and passes
  such values on, and every floating-point operation it performs (conversion of seconds to a
  \<open>Duration\<close>, the casts of raw column values) is a parameter of the model.
\<close>

type_synonym Time = int
type_synonym Duration = int
type_synonym float64 = real

definition maxDuration :: Duration where
  "maxDuration = 2 ^ 63 - 1"

definition minDuration :: Duration where
  "minDuration = - (2 ^ 63)"

definition time_Sub :: "Time \<Rightarrow> Time \<Rightarrow> Duration" where
  "time_Sub t u =
     (let d = t - u in
      if d > maxDuration then maxDuration
      else if d < minDuration then minDuration
      else d)"

text \<open>Errors handed back by \<open>database/sql\<close>; \<open>context.DeadlineExceeded\<close> is the one the
  collector compares against.\<close>

datatype go_error = DeadlineExceeded | Canceled | Err string

text \<open>A \<open>context.Context\<close>, as far as the exporter builds one: the background context, a
  context with a timeout, and a context carrying the requested groups.\<close>

datatype "context" = Background | WithTimeout "context" Duration | WithValue "context" "string list"

datatype ValueType = CounterValue | GaugeValue | UntypedValue

text \<open>\<open>utf8.ValidString\<close> of the Go standard library, on the bytes of the string: a lead
  byte below 128 stands alone; lead bytes 194 to 223, 224 to 239 and 240 to 244 take one, two
  and three continuation bytes, with the narrower range of the first continuation byte after
  224, 237, 240 and 244; every other lead byte is invalid.\<close>

definition utf8_cont :: "nat \<Rightarrow> bool" where
  "utf8_cont b = (128 \<le> b \<and> b \<le> 191)"

fun utf8_Valid :: "nat list \<Rightarrow> bool" where
  "utf8_Valid [] = True"
| "utf8_Valid (b0 # rest) =
     (if b0 < 128 then utf8_Valid rest
      else if 194 \<le> b0 \<and> b0 \<le> 223 then
        (case rest of
           b1 # r \<Rightarrow> utf8_cont b1 \<and> utf8_Valid r
         | _ \<Rightarrow> False)
      else if 224 \<le> b0 \<and> b0 \<le> 239 then
        (case rest of
           b1 # b2 # r \<Rightarrow>
             (if b0 = 224 then 160 \<le> b1 \<and> b1 \<le> 191
              else if b0 = 237 then 128 \<le> b1 \<and> b1 \<le> 159
              else utf8_cont b1)
             \<and> utf8_cont b2 \<and> utf8_Valid r
         | _ \<Rightarrow> False)
      else if 240 \<le> b0 \<and> b0 \<le> 244 then
        (case rest of
           b1 # b2 # b3 # r \<Rightarrow>
             (if b0 = 240 then 144 \<le> b1 \<and> b1 \<le> 191
              else if b0 = 244 then 128 \<le> b1 \<and> b1 \<le> 143
              else utf8_cont b1)
             \<and> utf8_cont b2 \<and> utf8_cont b3 \<and> utf8_Valid r
         | _ \<Rightarrow> False)
      else False)"

definition utf8_ValidString :: "string \<Rightarrow> bool" where
  "utf8_ValidString s = utf8_Valid (map of_char s)"

text \<open>A \<open>*prometheus.Desc\<close>: the data \<open>prometheus.NewDesc\<close> was given, and \<open>err\<close>, which says
  that the descriptor's \<open>err\<close> field is not nil.\<close>

record prometheus_Desc =
  fqName :: string
  help_text :: string
  variableLabels :: "string list"
  constLabels :: "(string \<times> string) list"
  err :: bool

text \<open>\<open>prometheus.NewDesc\<close> validates what it is given and records a failure in the
  descriptor. \<open>validMetricName\<close> and \<open>checkLabelName\<close> stand for the library's
  \<open>model.IsValidMetricName\<close> and \<open>checkLabelName\<close>, whose rules depend on the version of the
  library. The descriptor is in error when the metric name or a constant or variable label
  name is refused, when the metric name or a constant label value is not valid UTF-8, and when
  the label names are not all different: a variable label name occurs twice or is also a
  constant label name.\<close>

definition NewDesc ::
  "(string \<Rightarrow> bool) \<Rightarrow> (string \<Rightarrow> bool) \<Rightarrow>
   string \<Rightarrow> string \<Rightarrow> string list \<Rightarrow> (string \<times> string) list \<Rightarrow> prometheus_Desc" where
  "NewDesc validMetricName checkLabelName fq h vl cl =
     \<lparr>fqName = fq, help_text = h, variableLabels = vl, constLabels = cl,
      err = (\<not> (validMetricName fq
                 \<and> list_all checkLabelName (map fst cl)
                 \<and> list_all utf8_ValidString (fq # map snd cl)
                 \<and> list_all checkLabelName vl
                 \<and> distinct vl
                 \<and> list_all (\<lambda>l. map_of cl l = None) vl))\<rparr>"

record prometheus_Metric =
  desc :: prometheus_Desc
  valType :: ValueType
  val :: float64
  labelValues :: "string list"

text \<open>\<open>prometheus.MustNewConstMetric\<close> panics (\<open>None\<close>) on a nil descriptor, on a descriptor
  in error, when the number of label values is not the number of the descriptor's variable
  labels, and when a label value is not valid UTF-8.\<close>

definition MustNewConstMetric ::
  "prometheus_Desc option \<Rightarrow> ValueType \<Rightarrow> float64 \<Rightarrow> string list \<Rightarrow> prometheus_Metric option" where
  "MustNewConstMetric d vt v lvs =
     (case d of
        None \<Rightarrow> None
      | Some dd \<Rightarrow>
          if err dd then None
          else if length lvs \<noteq> length (variableLabels dd) then None
          else if \<not> list_all utf8_ValidString lvs then None
          else Some \<lparr>desc = dd, valType = vt, val = v, labelValues = lvs\<rparr>)"

text \<open>What the database connection is asked: \<open>DB.Query(sql)\<close> or
  \<open>DB.QueryContext(ctx, sql)\<close>.\<close>

datatype db_call = DB_Query string | DB_QueryContext "context" string

text \<open>A \<open>*sql.Rows\<close>: what \<open>Columns()\<close> returns, and for every row that \<open>Next()\<close>
  announces what the driver delivers to \<open>Scan\<close> (an error, or the raw values).\<close>

datatype 'v Rows = Rows "go_error + string list" "(go_error + 'v list) list"

text \<open>\<open>Rows.Scan\<close> into \<open>nColumn\<close> destinations: the driver's error, or the library's own
  error when the row does not have one value per destination.\<close>

definition rows_Scan :: "nat \<Rightarrow> go_error + 'v list \<Rightarrow> go_error + 'v list" where
  "rows_Scan nColumn r =
     (case r of
        Inl e \<Rightarrow> Inl e
      | Inr vals \<Rightarrow>
          if length vals \<noteq> nColumn then Inl (Err ''sql: expected destination arguments in Scan'')
          else Inr vals)"

section \<open>Columns, queries and servers\<close>

text \<open>The declarations of \<open>Column\<close>, \<open>Query\<close> and \<open>Server\<close> are outside the files at
  hand; the records have the fields the collector and the exporter read. The results of the
  accessor methods \<open>Column.PrometheusValueType()\<close>, \<open>Query.TimeoutDuration()\<close>,
  \<open>Server.Duration()\<close> and \<open>Server.Error()\<close> are fields of the same name.\<close>

record Column =
  Name :: string
  Rename :: string
  Desc :: string
  Scale :: float64
  Default :: float64
  PrometheusValueType :: ValueType

record Query =
  Name :: string
  SQL :: string
  TTL :: float64
  Timeout :: float64
  TimeoutDuration :: Duration
  LabelNames :: "string list"
  MetricNames :: "string list"
  Columns :: "string \<rightharpoonup> Column"

record 'v Server =
  Database :: string
  DisableCache :: bool
  scrapeBegin :: Time
  labels :: "(string \<times> string) list"
  Forked :: bool
  DB :: "db_call \<Rightarrow> go_error + 'v Rows"
  Duration :: float64
  Error :: "go_error option"
  totalTime :: float64
  totalCount :: float64
  queryCacheTTL :: "(string \<times> float64) list"
  queryScrapeTotalCount :: "(string \<times> float64) list"
  queryScrapeHitCount :: "(string \<times> float64) list"
  queryScrapeErrorCount :: "(string \<times> float64) list"
  queryScrapeMetricCount :: "(string \<times> float64) list"
  queryScrapeDuration :: "(string \<times> float64) list"

section \<open>The collector: one query on one server\<close>

text \<open>The errors \<open>execute\<close> records, one constructor for each \<open>fmt.Errorf\<close> of the source.\<close>

datatype collector_error =
    ErrTimeout string Duration Duration
  | ErrFailed string go_error
  | ErrRowsMeta string go_error
  | ErrScan go_error

record 'v Collector =
  Query :: Query
  Server :: "'v Server"
  result :: "prometheus_Metric list"
  descriptors :: "string \<rightharpoonup> prometheus_Desc"
  cacheHit :: bool
  err :: "collector_error option"
  lastScrape :: Time
  scrapeBegin :: Time
  scrapeDone :: Time
  scrapeDuration :: Duration

subsection \<open>makeDescMap and NewCollector\<close>

text \<open>The first loop of \<open>makeDescMap\<close>. \<open>q.Columns[labelName]\<close> is a nil pointer when the
  column map has no such key, and reading its \<open>Rename\<close> panics: \<open>None\<close>.\<close>

fun makeDescMap_labelNames :: "(string \<rightharpoonup> Column) \<Rightarrow> string list \<Rightarrow> string list option" where
  "makeDescMap_labelNames cols [] = Some []"
| "makeDescMap_labelNames cols (labelName # rest) =
     (case cols labelName of
        None \<Rightarrow> None
      | Some labelColumn \<Rightarrow>
          (case makeDescMap_labelNames cols rest of
             None \<Rightarrow> None
           | Some names \<Rightarrow>
               Some ((if Rename labelColumn \<noteq> [] then Rename labelColumn
                      else Column.Name labelColumn) # names)))"

text \<open>The second loop: one descriptor for each metric column, stored under the column's
  own \<open>Name\<close>. The two validity predicates are those of \<open>NewDesc\<close>.\<close>

fun makeDescMap_descriptors ::
  "(string \<Rightarrow> bool) \<Rightarrow> (string \<Rightarrow> bool) \<Rightarrow>
   string \<Rightarrow> (string \<rightharpoonup> Column) \<Rightarrow> string list \<Rightarrow> (string \<times> string) list \<Rightarrow>
   (string \<rightharpoonup> prometheus_Desc) \<Rightarrow> string list \<Rightarrow> (string \<rightharpoonup> prometheus_Desc) option" where
  "makeDescMap_descriptors validMetricName checkLabelName qname cols labelNames ls ds [] =
     Some ds"
| "makeDescMap_descriptors validMetricName checkLabelName qname cols labelNames ls ds
     (metricName # rest) =
     (case cols metricName of
        None \<Rightarrow> None
      | Some metricColumn \<Rightarrow>
          (let metricName' = qname @ ''_'' @ Column.Name metricColumn;
               metricName'' = (if Rename metricColumn \<noteq> []
                               then qname @ ''_'' @ Rename metricColumn else metricName')
           in makeDescMap_descriptors validMetricName checkLabelName qname cols labelNames ls
                (ds(Column.Name metricColumn \<mapsto>
                     NewDesc validMetricName checkLabelName metricName'' (Desc metricColumn)
                       labelNames ls))
                rest))"

definition makeDescMap ::
  "(string \<Rightarrow> bool) \<Rightarrow> (string \<Rightarrow> bool) \<Rightarrow> 'v Collector \<Rightarrow> 'v Collector option" where
  "makeDescMap validMetricName checkLabelName q =
     (case makeDescMap_labelNames (Columns (Query q)) (LabelNames (Query q)) of
        None \<Rightarrow> None
      | Some labelNames \<Rightarrow>
          (case makeDescMap_descriptors validMetricName checkLabelName (Query.Name (Query q))
                  (Columns (Query q)) labelNames (labels (Server q)) Map.empty
                  (MetricNames (Query q)) of
             None \<Rightarrow> None
           | Some ds \<Rightarrow> Some (q\<lparr>descriptors := ds\<rparr>)))"

definition NewCollector ::
  "(string \<Rightarrow> bool) \<Rightarrow> (string \<Rightarrow> bool) \<Rightarrow> Query \<Rightarrow> 'v Server \<Rightarrow> 'v Collector option" where
  "NewCollector validMetricName checkLabelName q s =
     makeDescMap validMetricName checkLabelName
       \<lparr>Query = q, Server = s, result = [], descriptors = Map.empty, cacheHit = False,
        err = None, lastScrape = 0, scrapeBegin = 0, scrapeDone = 0, scrapeDuration = 0\<rparr>"

subsection \<open>execute\<close>

text \<open>The call \<open>execute\<close> issues: under \<open>context.WithTimeout(ctx, q.TimeoutDuration())\<close>
  when \<open>q.Timeout != 0\<close>, the plain \<open>Query\<close> otherwise.\<close>

definition execute_call :: "Query \<Rightarrow> context \<Rightarrow> db_call" where
  "execute_call q ctx =
     (if Timeout q \<noteq> 0 then DB_QueryContext (WithTimeout ctx (TimeoutDuration q)) (SQL q)
      else DB_Query (SQL q))"

text \<open>\<open>columnIndexes[n] = i\<close> for the names in order, from index \<open>i\<close> on.\<close>

fun columnIndexes_from :: "nat \<Rightarrow> string list \<Rightarrow> (string \<rightharpoonup> nat) \<Rightarrow> (string \<rightharpoonup> nat)" where
  "columnIndexes_from i [] m = m"
| "columnIndexes_from i (n # ns) m = columnIndexes_from (Suc i) ns (m(n \<mapsto> i))"

definition columnIndexes :: "string list \<Rightarrow> (string \<rightharpoonup> nat)" where
  "columnIndexes columnNames = columnIndexes_from 0 columnNames Map.empty"

text \<open>The labels of one row; \<open>castString\<close> is the repository's helper of that name. The
  index comes from \<open>columnIndexes\<close> and \<open>colData\<close> has one entry per result column.\<close>

definition row_labels ::
  "('v \<Rightarrow> string) \<Rightarrow> string list \<Rightarrow> (string \<rightharpoonup> nat) \<Rightarrow> 'v list \<Rightarrow> string list" where
  "row_labels castString labelNames colIdx colData =
     map (\<lambda>labelName.
            case colIdx labelName of
              Some dataIndex \<Rightarrow> castString (colData ! dataIndex)
            | None \<Rightarrow> [])
         labelNames"

text \<open>The metrics of one row, appended to the result; \<open>castFloat64\<close> is the repository's
  helper of that name. A metric column found in the result whose name is not a key of
  \<open>q.Columns\<close> makes the nil column pointer panic, as do a missing descriptor and every
  panic of \<open>MustNewConstMetric\<close>.\<close>

fun row_metrics ::
  "('v \<Rightarrow> float64 \<Rightarrow> float64 \<Rightarrow> float64) \<Rightarrow> 'v Collector \<Rightarrow> (string \<rightharpoonup> nat) \<Rightarrow> 'v list \<Rightarrow>
   string list \<Rightarrow> string list \<Rightarrow> prometheus_Metric list \<Rightarrow> prometheus_Metric list option" where
  "row_metrics castFloat64 q colIdx colData lbls [] res = Some res"
| "row_metrics castFloat64 q colIdx colData lbls (metricName # rest) res =
     (case colIdx metricName of
        None \<Rightarrow> row_metrics castFloat64 q colIdx colData lbls rest res
      | Some dataIndex \<Rightarrow>
          (case Columns (Query q) metricName of
             None \<Rightarrow> None
           | Some c \<Rightarrow>
               (case MustNewConstMetric (descriptors q metricName) (PrometheusValueType c)
                       (castFloat64 (colData ! dataIndex) (Scale c) (Default c)) lbls of
                  None \<Rightarrow> None
                | Some m \<Rightarrow> row_metrics castFloat64 q colIdx colData lbls rest (res @ [m]))))"

text \<open>The scan loop over the rows that \<open>Next()\<close> announces. A failed \<open>Scan\<close> records the
  error and returns; when the rows are exhausted the error is reset to nil.\<close>

fun scan_loop ::
  "('v \<Rightarrow> string) \<Rightarrow> ('v \<Rightarrow> float64 \<Rightarrow> float64 \<Rightarrow> float64) \<Rightarrow> (string \<rightharpoonup> nat) \<Rightarrow> nat \<Rightarrow>
   (go_error + 'v list) list \<Rightarrow> 'v Collector \<Rightarrow> 'v Collector option" where
  "scan_loop castString castFloat64 colIdx nColumn [] q = Some (q\<lparr>err := None\<rparr>)"
| "scan_loop castString castFloat64 colIdx nColumn (r # rs) q =
     (case rows_Scan nColumn r of
        Inl e \<Rightarrow> Some (q\<lparr>err := Some (ErrScan e)\<rparr>)
      | Inr colData \<Rightarrow>
          (case row_metrics castFloat64 q colIdx colData
                  (row_labels castString (LabelNames (Query q)) colIdx colData)
                  (MetricNames (Query q)) (result q) of
             None \<Rightarrow> None
           | Some res \<Rightarrow> scan_loop castString castFloat64 colIdx nColumn rs (q\<lparr>result := res\<rparr>)))"

text \<open>\<open>execute\<close> returns the calls it made to the database connection and the collector
  it leaves behind (\<open>None\<close> when it panicked). \<open>now\<close> is the \<open>time.Now()\<close> of the timeout
  message.\<close>

definition execute ::
  "('v \<Rightarrow> string) \<Rightarrow> ('v \<Rightarrow> float64 \<Rightarrow> float64 \<Rightarrow> float64) \<Rightarrow> Time \<Rightarrow> context \<Rightarrow> 'v Collector \<Rightarrow>
   db_call list \<times> 'v Collector option" where
  "execute castString castFloat64 now ctx q0 =
     (let q = q0\<lparr>result := []\<rparr>;
          call = execute_call (Query q) ctx
      in ([call],
          (case DB (Server q) call of
             Inl e \<Rightarrow>
               if e = DeadlineExceeded
               then Some (q\<lparr>err := Some (ErrTimeout (Query.Name (Query q))
                                          (time_Sub now (Collector.scrapeBegin q))
                                          (TimeoutDuration (Query q)))\<rparr>)
               else Some (q\<lparr>err := Some (ErrFailed (Query.Name (Query q)) e)\<rparr>)
           | Inr (Rows cols rws) \<Rightarrow>
               (case cols of
                  Inl e \<Rightarrow> Some (q\<lparr>err := Some (ErrRowsMeta (Query.Name (Query q)) e)\<rparr>)
                | Inr columnNames \<Rightarrow>
                    scan_loop castString castFloat64 (columnIndexes columnNames)
                      (length columnNames) rws q))))"

subsection \<open>The cache and CollectWithContext\<close>

text \<open>\<open>toDuration x\<close> stands for the Go expression
  \<open>time.Duration(x * float64(time.Second))\<close>.\<close>

definition cacheExpired :: "(float64 \<Rightarrow> Duration) \<Rightarrow> 'v Collector \<Rightarrow> bool" where
  "cacheExpired toDuration q =
     (if time_Sub (Server.scrapeBegin (Server q)) (lastScrape q) > toDuration (TTL (Query q))
      then True else False)"

definition sendMetrics :: "'v Collector \<Rightarrow> prometheus_Metric list" where
  "sendMetrics q = result q"

text \<open>\<open>CollectWithContext\<close> under the collector's lock. \<open>t0\<close>, \<open>t1\<close> and \<open>t2\<close> are the
  clock readings of the three \<open>time.Now()\<close> in program order. The result is the list of
  calls made to the database connection, and the collector left behind with the metrics
  sent on the channel (\<open>None\<close> when \<open>execute\<close> panicked).\<close>

definition CollectWithContext ::
  "(float64 \<Rightarrow> Duration) \<Rightarrow> ('v \<Rightarrow> string) \<Rightarrow> ('v \<Rightarrow> float64 \<Rightarrow> float64 \<Rightarrow> float64) \<Rightarrow>
   Time \<Rightarrow> Time \<Rightarrow> Time \<Rightarrow> context \<Rightarrow> 'v Collector \<Rightarrow>
   db_call list \<times> ('v Collector \<times> prometheus_Metric list) option" where
  "CollectWithContext toDuration castString castFloat64 t0 t1 t2 ctx q0 =
     (let q = q0\<lparr>Collector.scrapeBegin := t0\<rparr> in
      if cacheExpired toDuration q \<or> DisableCache (Server q) then
        (case execute castString castFloat64 t1 ctx q of
           (cs, None) \<Rightarrow> (cs, None)
         | (cs, Some q1) \<Rightarrow>
             (let q2 = q1\<lparr>cacheHit := False\<rparr>;
                  q3 = q2\<lparr>scrapeDone := t2\<rparr>;
                  q4 = q3\<lparr>scrapeDuration := time_Sub (scrapeDone q3) (Collector.scrapeBegin q3)\<rparr>;
                  q5 = q4\<lparr>lastScrape := Server.scrapeBegin (Server q4)\<rparr>
              in (cs, Some (q5, sendMetrics q5))))
      else
        (let q1 = q\<lparr>cacheHit := True\<rparr>;
             q2 = q1\<lparr>scrapeDone := t2\<rparr>
         in ([], Some (q2, sendMetrics q2))))"

section \<open>The exporter: the primary server and the discovered ones\<close>

text \<open>A \<open>*prometheus.GaugeVec\<close> is the map from the label values of its children to their
  values; it is created once, with the label names \<open>datname\<close> or \<open>datname, query\<close>.\<close>

type_synonym GaugeVec = "string list \<rightharpoonup> float64"

definition GaugeVec_Reset :: "GaugeVec \<Rightarrow> GaugeVec" where
  "GaugeVec_Reset v = Map.empty"

definition GaugeVec_Set :: "GaugeVec \<Rightarrow> string list \<Rightarrow> float64 \<Rightarrow> GaugeVec" where
  "GaugeVec_Set v lvs x = v(lvs \<mapsto> x)"

definition GaugeVec_Add :: "GaugeVec \<Rightarrow> string list \<Rightarrow> float64 \<Rightarrow> GaugeVec" where
  "GaugeVec_Add v lvs x = v(lvs \<mapsto> (case v lvs of None \<Rightarrow> 0 | Some y \<Rightarrow> y) + x)"

text \<open>The record has the fields of \<open>Exporter\<close> that discovery and
  \<open>collectServerMetrics\<close> read or write.\<close>

text \<open>The Go map \<open>servers\<close> is ranged over, so it is the list of its entries, one for each
  key; assignment and \<open>delete\<close> are \<open>AList.update\<close> and \<open>AList.delete\<close>. The order of the list
  stands for the order in which a \<open>range\<close> visits the map. The maps \<open>excludeDatabase\<close>
  and \<open>includeDatabase\<close> are lists of entries as well: a key is found when \<open>map_of\<close> finds
  it, and \<open>len\<close> is positive when the list is not empty.\<close>

record 'v Exporter =
  dsn :: string
  disableCache :: bool
  excludeDatabase :: "(string \<times> bool) list"
  includeDatabase :: "(string \<times> bool) list"
  constLabels :: "(string \<times> string) list"
  tags :: "string list"
  connectTimeout :: int
  server :: "'v Server"
  servers :: "(string \<times> 'v Server) list"
  queries :: "string \<rightharpoonup> Query"
  serverScrapeDuration :: GaugeVec
  serverScrapeTotalSeconds :: GaugeVec
  serverScrapeTotalCount :: GaugeVec
  serverScrapeErrorCount :: GaugeVec
  queryCacheTTL :: GaugeVec
  queryScrapeTotalCount :: GaugeVec
  queryScrapeErrorCount :: GaugeVec
  queryScrapeDuration :: GaugeVec
  queryScrapeMetricCount :: GaugeVec
  queryScrapeHitCount :: GaugeVec

subsection \<open>Discovery: OnDatabaseChange, CreateServer, RemoveServer\<close>

text \<open>\<open>ReplaceDatname\<close> and \<open>NewServer\<close> (with the five options \<open>CreateServer\<close> passes)
  are functions of the repository outside the files at hand: parameters.\<close>

type_synonym 'v NewServer_fn =
  "string \<Rightarrow> (string \<rightharpoonup> Query) \<Rightarrow> (string \<times> string) list \<Rightarrow> bool \<Rightarrow> string list \<Rightarrow> int \<Rightarrow> 'v Server"

definition CreateServer ::
  "(string \<Rightarrow> string \<Rightarrow> string) \<Rightarrow> 'v NewServer_fn \<Rightarrow> 'v Exporter \<Rightarrow> string \<Rightarrow> 'v Exporter" where
  "CreateServer ReplaceDatname NewServer e dbname =
     (let newDSN = ReplaceDatname (dsn e) dbname;
          newServer = NewServer newDSN (queries e) (Exporter.constLabels e) (disableCache e)
                        (tags e) (connectTimeout e);
          newServer' = newServer\<lparr>Forked := True\<rparr>
      in e\<lparr>servers := AList.update dbname newServer' (servers e)\<rparr>)"

definition RemoveServer :: "'v Exporter \<Rightarrow> string \<Rightarrow> 'v Exporter" where
  "RemoveServer e dbname = e\<lparr>servers := AList.delete dbname (servers e)\<rparr>"

text \<open>The change map is ranged over: the list of its entries in the order visited.\<close>

fun OnDatabaseChange ::
  "(string \<Rightarrow> string \<Rightarrow> string) \<Rightarrow> 'v NewServer_fn \<Rightarrow> 'v Exporter \<Rightarrow> (string \<times> bool) list \<Rightarrow>
   'v Exporter" where
  "OnDatabaseChange ReplaceDatname NewServer e [] = e"
| "OnDatabaseChange ReplaceDatname NewServer e ((dbname, add) # rest) =
     (if dbname = Database (server e) then OnDatabaseChange ReplaceDatname NewServer e rest
      else if map_of (excludeDatabase e) dbname \<noteq> None
        then OnDatabaseChange ReplaceDatname NewServer e rest
      else if length (includeDatabase e) > 0 \<and> map_of (includeDatabase e) dbname = None
        then OnDatabaseChange ReplaceDatname NewServer e rest
      else if add
        then OnDatabaseChange ReplaceDatname NewServer
               (CreateServer ReplaceDatname NewServer e dbname) rest
      else OnDatabaseChange ReplaceDatname NewServer (RemoveServer e dbname) rest)"

definition IterateServer :: "'v Exporter \<Rightarrow> 'v Server list" where
  "IterateServer e = (if length (servers e) > 0 then map snd (servers e) else [])"

subsection \<open>collectServerMetrics\<close>

text \<open>One of the six loops \<open>for queryName, counter := range m\<close> over a per-query map of a
  server, each setting the child \<open>(s.Database, queryName)\<close> of a gauge vector.\<close>

fun set_query_gauges :: "string \<Rightarrow> (string \<times> float64) list \<Rightarrow> GaugeVec \<Rightarrow> GaugeVec" where
  "set_query_gauges db [] v = v"
| "set_query_gauges db ((queryName, counter) # rest) v =
     set_query_gauges db rest (GaugeVec_Set v [db, queryName] counter)"

definition collectServerMetrics_server :: "'v Server \<Rightarrow> 'v Exporter \<Rightarrow> 'v Exporter" where
  "collectServerMetrics_server s e =
     (let e1 = e\<lparr>serverScrapeDuration :=
                   GaugeVec_Set (serverScrapeDuration e) [Database s] (Duration s)\<rparr>;
          e2 = e1\<lparr>serverScrapeTotalSeconds :=
                   GaugeVec_Set (serverScrapeTotalSeconds e1) [Database s] (totalTime s)\<rparr>;
          e3 = e2\<lparr>serverScrapeTotalCount :=
                   GaugeVec_Set (serverScrapeTotalCount e2) [Database s] (totalCount s)\<rparr>;
          e4 = (if Error s \<noteq> None
                then e3\<lparr>serverScrapeErrorCount :=
                          GaugeVec_Add (serverScrapeErrorCount e3) [Database s] 1\<rparr>
                else e3);
          e5 = e4\<lparr>Exporter.queryCacheTTL :=
                   set_query_gauges (Database s) (Server.queryCacheTTL s)
                     (Exporter.queryCacheTTL e4)\<rparr>;
          e6 = e5\<lparr>Exporter.queryScrapeTotalCount :=
                   set_query_gauges (Database s) (Server.queryScrapeTotalCount s)
                     (Exporter.queryScrapeTotalCount e5)\<rparr>;
          e7 = e6\<lparr>Exporter.queryScrapeHitCount :=
                   set_query_gauges (Database s) (Server.queryScrapeHitCount s)
                     (Exporter.queryScrapeHitCount e6)\<rparr>;
          e8 = e7\<lparr>Exporter.queryScrapeErrorCount :=
                   set_query_gauges (Database s) (Server.queryScrapeErrorCount s)
                     (Exporter.queryScrapeErrorCount e7)\<rparr>;
          e9 = e8\<lparr>Exporter.queryScrapeMetricCount :=
                   set_query_gauges (Database s) (Server.queryScrapeMetricCount s)
                     (Exporter.queryScrapeMetricCount e8)\<rparr>
      in e9\<lparr>Exporter.queryScrapeDuration :=
               set_query_gauges (Database s) (Server.queryScrapeDuration s)
                 (Exporter.queryScrapeDuration e9)\<rparr>)"

fun collectServerMetrics_loop :: "'v Server list \<Rightarrow> 'v Exporter \<Rightarrow> 'v Exporter" where
  "collectServerMetrics_loop [] e = e"
| "collectServerMetrics_loop (s # rest) e =
     collectServerMetrics_loop rest (collectServerMetrics_server s e)"

text \<open>\<open>collectServerMetrics(s)\<close>: every vector is reset, then set again from the
  discovered servers and the primary. The parameter \<open>s\<close> of the source is shadowed by the loop
  variable and never read.\<close>

definition collectServerMetrics :: "'v Exporter \<Rightarrow> 'v Exporter" where
  "collectServerMetrics e =
     (let e' = e\<lparr>serverScrapeDuration := GaugeVec_Reset (serverScrapeDuration e),
                 serverScrapeTotalSeconds := GaugeVec_Reset (serverScrapeTotalSeconds e),
                 serverScrapeTotalCount := GaugeVec_Reset (serverScrapeTotalCount e),
                 serverScrapeErrorCount := GaugeVec_Reset (serverScrapeErrorCount e),
                 Exporter.queryCacheTTL := GaugeVec_Reset (Exporter.queryCacheTTL e),
                 Exporter.queryScrapeTotalCount := GaugeVec_Reset (Exporter.queryScrapeTotalCount e),
                 Exporter.queryScrapeErrorCount := GaugeVec_Reset (Exporter.queryScrapeErrorCount e),
                 Exporter.queryScrapeDuration := GaugeVec_Reset (Exporter.queryScrapeDuration e),
                 Exporter.queryScrapeMetricCount := GaugeVec_Reset (Exporter.queryScrapeMetricCount e),
                 Exporter.queryScrapeHitCount := GaugeVec_Reset (Exporter.queryScrapeHitCount e)\<rparr>;
          servers = IterateServer e' @ [server e']
      in collectServerMetrics_loop servers e')"

section \<open>The samples of a result, as the design describes them\<close>

text \<open>Step 4 of the collector's design: for each result row, each configured metric column
  found in the row gives one sample, built from the descriptor and the column specification
  stored under the metric column's name and from the value of the result column of that name;
  its label values are, for each configured label column in order, the value of the result
  column of that name, and the empty string when the result has no such column.\<close>

definition spec_row_samples ::
  "('v \<Rightarrow> string) \<Rightarrow> ('v \<Rightarrow> float64 \<Rightarrow> float64 \<Rightarrow> float64) \<Rightarrow> 'v Collector \<Rightarrow> string list \<Rightarrow>
   'v list \<Rightarrow> prometheus_Metric list" where
  "spec_row_samples castString castFloat64 q columnNames vals =
     map (\<lambda>metricName.
            \<lparr>desc = the (descriptors q metricName),
             valType = PrometheusValueType (the (Columns (Query q) metricName)),
             val = castFloat64 (vals ! the (columnIndexes columnNames metricName))
                     (Scale (the (Columns (Query q) metricName)))
                     (Default (the (Columns (Query q) metricName))),
             labelValues =
               map (\<lambda>labelName.
                      case columnIndexes columnNames labelName of
                        Some i \<Rightarrow> castString (vals ! i)
                      | None \<Rightarrow> [])
                   (LabelNames (Query q))\<rparr>)
         (filter (\<lambda>metricName. metricName \<in> set columnNames) (MetricNames (Query q)))"

definition spec_samples ::
  "('v \<Rightarrow> string) \<Rightarrow> ('v \<Rightarrow> float64 \<Rightarrow> float64 \<Rightarrow> float64) \<Rightarrow> 'v Collector \<Rightarrow> string list \<Rightarrow>
   (go_error + 'v list) list \<Rightarrow> prometheus_Metric list" where
  "spec_samples castString castFloat64 q columnNames rws =
     concat (map (\<lambda>r. case r of
                          Inr vals \<Rightarrow> spec_row_samples castString castFloat64 q columnNames vals
                        | Inl e \<Rightarrow> [])
                 rws)"

section \<open>Concrete inputs\<close>

text \<open>Stand-ins for the parameters, used to run the model: raw column values, the two cast
  helpers and the conversion of seconds to a \<open>Duration\<close> (the exact product, truncated towards
  zero; the rounding of the \<open>float64\<close> product and the overflow of the conversion are left
  out, and the stand-in is used at whole numbers of seconds only).\<close>

datatype ex_value = NullV | TextV string | IntV int

fun ex_castString :: "ex_value \<Rightarrow> string" where
  "ex_castString NullV = []"
| "ex_castString (TextV s) = s"
| "ex_castString (IntV n) = ''int''"

fun ex_castFloat64 :: "ex_value \<Rightarrow> float64 \<Rightarrow> float64 \<Rightarrow> float64" where
  "ex_castFloat64 (IntV n) scale dflt = of_int n * scale"
| "ex_castFloat64 v scale dflt = dflt"

definition ex_toDuration :: "float64 \<Rightarrow> Duration" where
  "ex_toDuration x = (if 0 \<le> x then \<lfloor>x * 1000000000\<rfloor> else \<lceil>x * 1000000000\<rceil>)"

text \<open>Stand-ins for the library's name checks: the classic rules, a metric name of letters,
  digits, underscores and colons that does not begin with a digit, a label name of letters,
  digits and underscores that begins with neither a digit nor two underscores.\<close>

definition ex_letter :: "char \<Rightarrow> bool" where
  "ex_letter c = (let n = (of_char c :: nat)
                  in (65 \<le> n \<and> n \<le> 90) \<or> (97 \<le> n \<and> n \<le> 122) \<or> n = 95)"

definition ex_digit :: "char \<Rightarrow> bool" where
  "ex_digit c = (let n = (of_char c :: nat) in 48 \<le> n \<and> n \<le> 57)"

definition ex_validMetricName :: "string \<Rightarrow> bool" where
  "ex_validMetricName s =
     (case s of
        [] \<Rightarrow> False
      | c # cs \<Rightarrow> (ex_letter c \<or> c = CHR '':'')
                  \<and> list_all (\<lambda>c. ex_letter c \<or> ex_digit c \<or> c = CHR '':'') cs)"

definition ex_checkLabelName :: "string \<Rightarrow> bool" where
  "ex_checkLabelName s =
     (case s of
        [] \<Rightarrow> False
      | c # cs \<Rightarrow> ex_letter c \<and> list_all (\<lambda>c. ex_letter c \<or> ex_digit c) cs
                  \<and> take 2 s \<noteq> ''__'')"

text \<open>The query \<open>db_size\<close> with TTL 10 s and timeout 1 s; its metric column \<open>size\<close> is
  renamed to \<open>bytes\<close>.\<close>

definition ex_datname :: Column where
  "ex_datname = \<lparr>Column.Name = ''datname'', Rename = [], Desc = ''database'', Scale = 1,
     Default = 0, PrometheusValueType = UntypedValue\<rparr>"

definition ex_size :: Column where
  "ex_size = \<lparr>Column.Name = ''size'', Rename = ''bytes'', Desc = ''size'', Scale = 1,
     Default = 0, PrometheusValueType = GaugeValue\<rparr>"

definition ex_query :: Query where
  "ex_query = \<lparr>Query.Name = ''db_size'', SQL = ''SELECT datname, size FROM x'', TTL = 10,
     Timeout = 1, TimeoutDuration = 1000000000, LabelNames = [''datname''],
     MetricNames = [''size''],
     Columns = [''datname'' \<mapsto> ex_datname, ''size'' \<mapsto> ex_size]\<rparr>"

text \<open>A server whose current scrape began at second 20 and whose connection answers every
  call with \<open>answer\<close>.\<close>

definition ex_server :: "bool \<Rightarrow> (go_error + ex_value Rows) \<Rightarrow> ex_value Server" where
  "ex_server disable answer = \<lparr>Database = ''postgres'', DisableCache = disable,
     scrapeBegin = 20000000000, labels = [(''job'', ''pg'')], Forked = False,
     DB = (\<lambda>c. answer), Duration = 0, Error = None, totalTime = 0, totalCount = 0,
     queryCacheTTL = [], queryScrapeTotalCount = [], queryScrapeHitCount = [],
     queryScrapeErrorCount = [], queryScrapeMetricCount = [], queryScrapeDuration = []\<rparr>"

definition ex_desc :: prometheus_Desc where
  "ex_desc = \<lparr>fqName = ''db_size_bytes'', help_text = ''size'', variableLabels = [''datname''],
     constLabels = [(''job'', ''pg'')], err = False\<rparr>"

definition ex_sample :: "string \<Rightarrow> float64 \<Rightarrow> prometheus_Metric" where
  "ex_sample l v = \<lparr>desc = ex_desc, valType = GaugeValue, val = v, labelValues = [l]\<rparr>"

text \<open>A collector of \<open>ex_query\<close> that cached one sample in the scrape that began at
  \<open>t\<close>.\<close>

definition ex_collector :: "bool \<Rightarrow> (go_error + ex_value Rows) \<Rightarrow> Time \<Rightarrow> ex_value Collector" where
  "ex_collector disable answer t = \<lparr>Query = ex_query, Server = ex_server disable answer,
     result = [ex_sample ''old'' 7], descriptors = [''size'' \<mapsto> ex_desc], cacheHit = False,
     err = None, lastScrape = t, scrapeBegin = t, scrapeDone = t,
     scrapeDuration = 0\<rparr>"

definition ex_rows :: "ex_value Rows" where
  "ex_rows = Rows (Inr [''datname'', ''size''])
     [Inr [TextV ''a'', IntV 100], Inr [TextV ''b'', IntV 200]]"

text \<open>A result whose second row fails to scan, and the collector left behind by a failed
  query.\<close>

definition ex_rows_scanfail :: "ex_value Rows" where
  "ex_rows_scanfail = Rows (Inr [''datname'', ''size''])
     [Inr [TextV ''a'', IntV 100], Inl (Err ''sql: Rows are closed'')]"

definition ex_after_failure :: "bool \<Rightarrow> ex_value Collector" where
  "ex_after_failure disable = (ex_collector disable (Inl (Err ''down'')) 0)
     \<lparr>result := [], err := Some (ErrFailed ''db_size'' (Err ''down'')), cacheHit := False,
      lastScrape := 20000000000, Collector.scrapeBegin := 21, scrapeDone := 23,
      scrapeDuration := 2\<rparr>"

text \<open>Results that lack the label column, and the metric column.\<close>

definition ex_rows_nolabel :: "ex_value Rows" where
  "ex_rows_nolabel = Rows (Inr [''size'']) [Inr [IntV 100], Inr [IntV 200]]"

definition ex_rows_nometric :: "ex_value Rows" where
  "ex_rows_nometric = Rows (Inr [''datname'']) [Inr [TextV ''a''], Inr [TextV ''b'']]"

text \<open>An exporter that excludes \<open>dbA\<close>, with stale children in every gauge vector.\<close>

definition ex_ReplaceDatname :: "string \<Rightarrow> string \<Rightarrow> string" where
  "ex_ReplaceDatname d dbname = d @ ''/'' @ dbname"

definition ex_NewServer :: "ex_value NewServer_fn" where
  "ex_NewServer d qs ls disable tg ct =
     (ex_server disable (Inl (Err ''not connected'')))\<lparr>Database := d, labels := ls\<rparr>"

definition ex_exporter :: "(string \<times> ex_value Server) list \<Rightarrow> ex_value Exporter" where
  "ex_exporter srvs = \<lparr>dsn = ''pg'', disableCache = False,
     excludeDatabase = [(''dbA'', True)], includeDatabase = [],
     constLabels = [(''job'', ''pg'')], tags = [], connectTimeout = 100,
     server = ex_server False (Inr ex_rows), servers = srvs,
     queries = [''db_size'' \<mapsto> ex_query],
     serverScrapeDuration = [[''gone''] \<mapsto> 1], serverScrapeTotalSeconds = [[''gone''] \<mapsto> 1],
     serverScrapeTotalCount = [[''gone''] \<mapsto> 1], serverScrapeErrorCount = [[''gone''] \<mapsto> 1],
     queryCacheTTL = [[''gone'', ''q''] \<mapsto> 1], queryScrapeTotalCount = [[''gone'', ''q''] \<mapsto> 1],
     queryScrapeErrorCount = [[''gone'', ''q''] \<mapsto> 1], queryScrapeDuration = [[''gone'', ''q''] \<mapsto> 1],
     queryScrapeMetricCount = [[''gone'', ''q''] \<mapsto> 1], queryScrapeHitCount = [[''gone'', ''q''] \<mapsto> 1]\<rparr>"

text \<open>A discovered server \<open>dbB\<close> with one entry in its cache-TTL map.\<close>

definition ex_peripheral :: "ex_value Server" where
  "ex_peripheral = (ex_server False (Inr ex_rows))
     \<lparr>Database := ''dbB'', Forked := True, Server.queryCacheTTL := [(''db_size'', 3)]\<rparr>"

text \<open>The query with its label column \<open>datname\<close> renamed to \<open>database\<close> as well, the
  collector \<open>NewCollector\<close> builds for it, and results that name a column by its rename.\<close>

definition ex_query_renamed :: Query where
  "ex_query_renamed = ex_query
     \<lparr>Columns := [''datname'' \<mapsto> ex_datname\<lparr>Rename := ''database''\<rparr>, ''size'' \<mapsto> ex_size]\<rparr>"

definition ex_desc_renamed :: prometheus_Desc where
  "ex_desc_renamed = ex_desc\<lparr>variableLabels := [''database'']\<rparr>"

definition ex_built_renamed :: "(go_error + ex_value Rows) \<Rightarrow> ex_value Collector" where
  "ex_built_renamed answer = \<lparr>Query = ex_query_renamed, Server = ex_server False answer,
     result = [], descriptors = [''size'' \<mapsto> ex_desc_renamed], cacheHit = False,
     err = None, lastScrape = 0, scrapeBegin = 0, scrapeDone = 0, scrapeDuration = 0\<rparr>"

definition ex_rows_renamed_label :: "ex_value Rows" where
  "ex_rows_renamed_label = Rows (Inr [''database'', ''size'']) [Inr [TextV ''a'', IntV 100]]"

definition ex_rows_renamed_metric :: "ex_value Rows" where
  "ex_rows_renamed_metric = Rows (Inr [''datname'', ''bytes'']) [Inr [TextV ''a'', IntV 100]]"

text \<open>The same query with the label column renamed to \<open>job\<close>, the name of a constant
  label of the server.\<close>

definition ex_query_colliding :: Query where
  "ex_query_colliding = ex_query
     \<lparr>Columns := [''datname'' \<mapsto> ex_datname\<lparr>Rename := ''job''\<rparr>, ''size'' \<mapsto> ex_size]\<rparr>"



section \<open>Properties\<close>

lemmas ex_defs = ex_collector_def ex_server_def ex_query_def ex_toDuration_def ex_sample_def
  ex_desc_def ex_rows_def ex_size_def ex_datname_def

lemmas eval_defs = CollectWithContext_def cacheExpired_def execute_def execute_call_def
  sendMetrics_def time_Sub_def maxDuration_def minDuration_def columnIndexes_def rows_Scan_def
  row_labels_def MustNewConstMetric_def utf8_ValidString_def utf8_cont_def Let_def

subsection \<open>The cache window\<close>

text \<open>
  C1. \<open>CollectWithContext\<close> asks the database exactly when the elapsed window
  (the server's scrape begin minus the collector's \<open>lastScrape\<close>) is strictly greater than
  the TTL or the server's cache is disabled, and then it issues the one call of \<open>execute\<close>.
  When the window is at most the TTL, the boundary \<open>d = t\<close> included, and the cache is not
  disabled, no call is made, the cached samples are sent and the cache-hit flag is set.
\<close>

theorem CollectWithContext_cache_window:
  "fst (CollectWithContext toDuration castString castFloat64 t0 t1 t2 ctx q) =
     (if toDuration (TTL (Query q)) < time_Sub (Server.scrapeBegin (Server q)) (lastScrape q)
         \<or> DisableCache (Server q)
      then [execute_call (Query q) ctx] else [])
   \<and> (time_Sub (Server.scrapeBegin (Server q)) (lastScrape q) \<le> toDuration (TTL (Query q))
        \<and> \<not> DisableCache (Server q) \<longrightarrow>
      snd (CollectWithContext toDuration castString castFloat64 t0 t1 t2 ctx q) =
        Some (q\<lparr>Collector.scrapeBegin := t0, cacheHit := True, scrapeDone := t2\<rparr>, result q))"
  by (simp add: CollectWithContext_def cacheExpired_def execute_def sendMetrics_def Let_def
      split: prod.splits option.splits)

text \<open>At the boundary (window 10 s, TTL 10 s) the cached sample is served; one nanosecond
  later the query is executed.\<close>

theorem CollectWithContext_cache_window_witness:
  "time_Sub (Server.scrapeBegin (Server (ex_collector False (Inr ex_rows) 10000000000)))
      (lastScrape (ex_collector False (Inr ex_rows) 10000000000))
     = ex_toDuration (TTL (Query (ex_collector False (Inr ex_rows) 10000000000)))
   \<and> \<not> DisableCache (Server (ex_collector False (Inr ex_rows) 10000000000))
   \<and> CollectWithContext ex_toDuration ex_castString ex_castFloat64 21 22 23 Background
        (ex_collector False (Inr ex_rows) 10000000000)
      = ([], Some ((ex_collector False (Inr ex_rows) 10000000000)
                     \<lparr>Collector.scrapeBegin := 21, cacheHit := True, scrapeDone := 23\<rparr>,
                   [ex_sample ''old'' 7]))
   \<and> fst (CollectWithContext ex_toDuration ex_castString ex_castFloat64 21 22 23 Background
        (ex_collector False (Inr ex_rows) 9999999999))
      = [DB_QueryContext (WithTimeout Background 1000000000) ''SELECT datname, size FROM x'']"
  using CollectWithContext_cache_window [of ex_toDuration ex_castString ex_castFloat64 21 22 23
          Background "ex_collector False (Inr ex_rows) 10000000000"]
        CollectWithContext_cache_window [of ex_toDuration ex_castString ex_castFloat64 21 22 23
          Background "ex_collector False (Inr ex_rows) 9999999999"]
  by (simp add: ex_defs time_Sub_def maxDuration_def minDuration_def execute_call_def prod_eq_iff)

subsection \<open>Failed executions\<close>

text \<open>\<open>execute\<close> leaves the query, the server, the descriptors and the cache timestamps
  alone.\<close>

lemma scan_loop_frame:
  "scan_loop castString castFloat64 colIdx n rws q = Some q' \<Longrightarrow>
     Query q' = Query q \<and> Server q' = Server q \<and> descriptors q' = descriptors q
     \<and> lastScrape q' = lastScrape q \<and> Collector.scrapeBegin q' = Collector.scrapeBegin q"
  by (induction rws arbitrary: q) (auto split: sum.splits option.splits)

lemma execute_frame:
  assumes "snd (execute castString castFloat64 now ctx q) = Some q'"
  shows "Query q' = Query q \<and> Server q' = Server q \<and> descriptors q' = descriptors q
     \<and> lastScrape q' = lastScrape q \<and> Collector.scrapeBegin q' = Collector.scrapeBegin q"
  using assms scan_loop_frame [of castString castFloat64 _ _ _ "q\<lparr>result := []\<rparr>" q']
  by (auto simp: execute_def Let_def split: sum.splits Rows.splits if_splits)

text \<open>The collector's lock makes the check of the cache, the execution and the update of the
  cache one step. Once a collect that executed is over, a collect in the same scrape window
  of a server with the cache enabled and a TTL that is not negative makes no call and sends
  the same samples.\<close>

lemma second_collect_in_same_window:
  assumes run: "CollectWithContext toDuration castString castFloat64 t0 t1 t2 ctx q =
                  (calls, Some (q1, out1))"
    and executed: "calls \<noteq> []"
    and enabled: "\<not> DisableCache (Server q)"
    and ttl: "0 \<le> toDuration (TTL (Query q))"
  shows "CollectWithContext toDuration castString castFloat64 t0' t1' t2' ctx' q1 =
           ([], Some (q1\<lparr>Collector.scrapeBegin := t0', cacheHit := True, scrapeDone := t2'\<rparr>,
                      out1))"
proof -
  from run executed obtain q' where
    ex: "snd (execute castString castFloat64 t1 ctx (q\<lparr>Collector.scrapeBegin := t0\<rparr>)) = Some q'"
    and q1: "q1 = q'\<lparr>cacheHit := False, scrapeDone := t2,
                      scrapeDuration := time_Sub t2 (Collector.scrapeBegin q'),
                      lastScrape := Server.scrapeBegin (Server q')\<rparr>"
    and out1: "out1 = result q1"
    by (auto simp: CollectWithContext_def sendMetrics_def Let_def
             split: if_splits prod.splits option.splits)
  from execute_frame [OF ex] have fr: "Query q' = Query q" "Server q' = Server q"
    by simp_all
  have window: "time_Sub (Server.scrapeBegin (Server q1)) (lastScrape q1) = 0"
    using q1 by (simp add: time_Sub_def maxDuration_def minDuration_def)
  show ?thesis
    using window out1 q1 fr enabled ttl
    by (simp add: CollectWithContext_def cacheExpired_def sendMetrics_def Let_def)
qed

text \<open>A query error and a column-metadata error leave an empty result behind.\<close>

lemma execute_failure_before_rows:
  assumes "DB (Server q) (execute_call (Query q) ctx) = Inl e
           \<or> DB (Server q) (execute_call (Query q) ctx) = Inr (Rows (Inl e) rws)"
  shows "\<exists>q'. snd (execute castString castFloat64 now ctx q) = Some q' \<and> result q' = []
           \<and> err q' \<noteq> None"
  using assms by (auto simp: execute_def Let_def)

text \<open>
  C2. A failed re-execution after expiry should leave zero cached samples. On a result whose
  second row fails to scan, with one old sample in the cache, \<open>CollectWithContext\<close> records
  the scan error and leaves, and sends, the sample of the first row: the old cache is gone,
  but the result of the failed cycle is not empty.
\<close>

theorem CollectWithContext_scan_failure_partial:
  "CollectWithContext ex_toDuration ex_castString ex_castFloat64 21 22 23 Background
     (ex_collector False (Inr ex_rows_scanfail) 0) =
   ([DB_QueryContext (WithTimeout Background 1000000000) ''SELECT datname, size FROM x''],
    Some ((ex_collector False (Inr ex_rows_scanfail) 0)
            \<lparr>result := [ex_sample ''a'' 100],
             err := Some (ErrScan (Err ''sql: Rows are closed'')), cacheHit := False,
             lastScrape := 20000000000, Collector.scrapeBegin := 21, scrapeDone := 23,
             scrapeDuration := 2\<rparr>,
          [ex_sample ''a'' 100]))"
  by (simp add: ex_defs ex_rows_scanfail_def eval_defs)

text \<open>
  C10. After an execution that failed, \<open>lastScrape\<close> is the server's scrape begin and the
  samples sent are the cached result of the failed run; every later collect on a server whose
  cache is not disabled and whose scrape begin is within the TTL of the failed attempt makes
  no call to the database, sends that same result and sets the cache-hit flag.
\<close>

theorem failed_result_cached_until_ttl:
  assumes run: "CollectWithContext toDuration castString castFloat64 t0 t1 t2 ctx q =
                  (calls, Some (q1, out1))"
    and executed: "calls \<noteq> []"
    and failed: "err q1 \<noteq> None"
  shows "lastScrape q1 = Server.scrapeBegin (Server q) \<and> out1 = result q1
    \<and> (\<forall>s' t0' t1' t2' ctx'.
          \<not> DisableCache s'
          \<and> time_Sub (Server.scrapeBegin s') (Server.scrapeBegin (Server q))
               \<le> toDuration (TTL (Query q)) \<longrightarrow>
          CollectWithContext toDuration castString castFloat64 t0' t1' t2' ctx'
              (q1\<lparr>Server := s'\<rparr>) =
            ([], Some (q1\<lparr>Server := s', Collector.scrapeBegin := t0', cacheHit := True,
                          scrapeDone := t2'\<rparr>, result q1)))"
proof -
  from run executed obtain q' where
    ex: "snd (execute castString castFloat64 t1 ctx (q\<lparr>Collector.scrapeBegin := t0\<rparr>)) = Some q'"
    and q1: "q1 = q'\<lparr>cacheHit := False, scrapeDone := t2,
                      scrapeDuration := time_Sub t2 (Collector.scrapeBegin q'),
                      lastScrape := Server.scrapeBegin (Server q')\<rparr>"
    and out1: "out1 = result q1"
    by (auto simp: CollectWithContext_def sendMetrics_def Let_def
             split: if_splits prod.splits option.splits)
  from execute_frame [OF ex] have fr: "Query q' = Query q" "Server q' = Server q"
    by simp_all
  have last: "lastScrape q1 = Server.scrapeBegin (Server q)"
    using q1 fr by simp
  have qq: "Query q1 = Query q"
    using q1 fr by simp
  show ?thesis
    using last out1 qq
    by (simp add: CollectWithContext_def cacheExpired_def sendMetrics_def Let_def)
qed

theorem failed_result_cached_until_ttl_witness:
  "CollectWithContext ex_toDuration ex_castString ex_castFloat64 21 22 23 Background
      (ex_collector False (Inl (Err ''down'')) 0) =
     ([DB_QueryContext (WithTimeout Background 1000000000) ''SELECT datname, size FROM x''],
      Some (ex_after_failure False, []))
   \<and> err (ex_after_failure False) \<noteq> None
   \<and> \<not> DisableCache (ex_server False (Inr ex_rows))
   \<and> time_Sub (Server.scrapeBegin ((ex_server False (Inr ex_rows))\<lparr>Server.scrapeBegin := 30000000000\<rparr>))
        (Server.scrapeBegin (Server (ex_collector False (Inl (Err ''down'')) 0)))
       \<le> ex_toDuration (TTL (Query (ex_collector False (Inl (Err ''down'')) 0)))
   \<and> CollectWithContext ex_toDuration ex_castString ex_castFloat64 31 32 33 Background
        ((ex_after_failure False)\<lparr>Server := (ex_server False (Inr ex_rows))\<lparr>Server.scrapeBegin := 30000000000\<rparr>\<rparr>) =
       ([], Some ((ex_after_failure False)\<lparr>Server := (ex_server False (Inr ex_rows))\<lparr>Server.scrapeBegin := 30000000000\<rparr>,
                    Collector.scrapeBegin := 31, cacheHit := True, scrapeDone := 33\<rparr>, []))"
proof -
  have run: "CollectWithContext ex_toDuration ex_castString ex_castFloat64 21 22 23 Background
      (ex_collector False (Inl (Err ''down'')) 0) =
     ([DB_QueryContext (WithTimeout Background 1000000000) ''SELECT datname, size FROM x''],
      Some (ex_after_failure False, []))"
    by (simp add: ex_defs ex_after_failure_def eval_defs)
  have failed: "err (ex_after_failure False) \<noteq> None"
    by (simp add: ex_after_failure_def)
  from failed_result_cached_until_ttl [OF run _ failed]
  show ?thesis
    using run failed
    by (simp add: ex_defs ex_after_failure_def time_Sub_def maxDuration_def minDuration_def)
qed

text \<open>With the cache disabled the failed query is retried although the window is within the
  TTL.\<close>

theorem retry_within_ttl_when_cache_disabled:
  "CollectWithContext ex_toDuration ex_castString ex_castFloat64 21 22 23 Background
      (ex_collector True (Inl (Err ''down'')) 0) =
     ([DB_QueryContext (WithTimeout Background 1000000000) ''SELECT datname, size FROM x''],
      Some (ex_after_failure True, []))
   \<and> err (ex_after_failure True) \<noteq> None
   \<and> lastScrape (ex_after_failure True) = Server.scrapeBegin (Server (ex_after_failure True))
   \<and> time_Sub (Server.scrapeBegin (Server (ex_after_failure True))) (lastScrape (ex_after_failure True))
       \<le> ex_toDuration (TTL (Query (ex_after_failure True)))
   \<and> CollectWithContext ex_toDuration ex_castString ex_castFloat64 31 32 33 Background
        (ex_after_failure True) =
       ([DB_QueryContext (WithTimeout Background 1000000000) ''SELECT datname, size FROM x''],
        Some ((ex_after_failure True)\<lparr>Collector.scrapeBegin := 31, scrapeDone := 33\<rparr>, []))
   \<and> \<not> cacheHit ((ex_after_failure True)\<lparr>Collector.scrapeBegin := 31, scrapeDone := 33\<rparr>)"
  by (simp add: ex_defs ex_after_failure_def eval_defs)

subsection \<open>Timeouts\<close>




subsection \<open>What NewCollector builds\<close>

lemma makeDescMap_labelNames_Some:
  "makeDescMap_labelNames cols ls = Some names \<Longrightarrow>
     names = map (\<lambda>l. case cols l of
                        Some c \<Rightarrow> (if Rename c \<noteq> [] then Rename c else Column.Name c)
                      | None \<Rightarrow> []) ls
     \<and> (\<forall>l\<in>set ls. cols l \<noteq> None)"
  by (induction ls arbitrary: names) (auto split: option.splits)

lemma makeDescMap_descriptors_Some:
  assumes "makeDescMap_descriptors vm cl qn cols lbls ls ds ms = Some ds'"
    and "\<forall>m\<in>set ms. \<forall>c. cols m = Some c \<longrightarrow> Column.Name c = m"
  shows "(\<forall>m\<in>set ms. \<exists>c. cols m = Some c \<and>
            ds' m = Some (NewDesc vm cl (qn @ ''_'' @ (if Rename c \<noteq> [] then Rename c
                                                else Column.Name c)) (Desc c) lbls ls))
         \<and> (\<forall>m. m \<notin> set ms \<longrightarrow> ds' m = ds m)"
  using assms
proof (induction ms arbitrary: ds)
  case Nil
  then show ?case by simp
next
  case (Cons m ms)
  from Cons.prems obtain c where c: "cols m = Some c" and nm: "Column.Name c = m"
    by (auto split: option.splits)
  let ?d = "NewDesc vm cl (qn @ ''_'' @ (if Rename c \<noteq> [] then Rename c else Column.Name c))
              (Desc c) lbls ls"
  from Cons.prems c nm
  have rest: "makeDescMap_descriptors vm cl qn cols lbls ls (ds(m \<mapsto> ?d)) ms = Some ds'"
    by (cases "Rename c = []") (simp_all add: Let_def)
  from Cons.prems have keyed: "\<forall>m\<in>set ms. \<forall>c. cols m = Some c \<longrightarrow> Column.Name c = m"
    by simp
  note ih = Cons.IH [OF rest keyed]
  show ?case
  proof (intro conjI ballI allI impI)
    fix m' assume "m' \<in> set (m # ms)"
    show "\<exists>c. cols m' = Some c \<and>
            ds' m' = Some (NewDesc vm cl (qn @ ''_'' @ (if Rename c \<noteq> [] then Rename c
                                                 else Column.Name c)) (Desc c) lbls ls)"
    proof (cases "m' \<in> set ms")
      case True
      with ih show ?thesis by blast
    next
      case False
      with \<open>m' \<in> set (m # ms)\<close> have "m' = m" by simp
      with False ih c show ?thesis by simp
    qed
  next
    fix m' assume "m' \<notin> set (m # ms)"
    with ih show "ds' m' = ds m'" by simp
  qed
qed

text \<open>\<open>NewCollector\<close> stores, for every metric column, the descriptor under the column's
  name, when the column map is keyed by the columns' names.\<close>

lemma NewCollector_well_formed:
  assumes built: "NewCollector vm cl q s = Some c"
    and keyed: "\<forall>m\<in>set (MetricNames q). \<forall>col. Columns q m = Some col \<longrightarrow> Column.Name col = m"
  shows "Query c = q \<and> Server c = s \<and> result c = []
     \<and> (\<forall>l\<in>set (LabelNames q). Columns q l \<noteq> None)
     \<and> dom (descriptors c) = set (MetricNames q)
     \<and> (\<forall>m\<in>set (MetricNames q). \<exists>col. Columns q m = Some col
           \<and> descriptors c m =
               Some (NewDesc vm cl
                       (Query.Name q @ ''_'' @ (if Rename col \<noteq> [] then Rename col
                                               else Column.Name col))
                       (Desc col)
                       (map (\<lambda>l. case Columns q l of
                                   Some lc \<Rightarrow> (if Rename lc \<noteq> [] then Rename lc
                                               else Column.Name lc)
                                 | None \<Rightarrow> []) (LabelNames q))
                       (labels s)))"
proof -
  from built obtain names ds where
    names: "makeDescMap_labelNames (Columns q) (LabelNames q) = Some names"
    and ds: "makeDescMap_descriptors vm cl (Query.Name q) (Columns q) names (labels s) Map.empty
               (MetricNames q) = Some ds"
    and c: "c = \<lparr>Query = q, Server = s, result = [], descriptors = ds, cacheHit = False,
                 err = None, lastScrape = 0, scrapeBegin = 0, scrapeDone = 0,
                 scrapeDuration = 0\<rparr>"
    by (auto simp: NewCollector_def makeDescMap_def split: option.splits)
  note L = makeDescMap_labelNames_Some [OF names]
  note D = makeDescMap_descriptors_Some [OF ds keyed]
  have dom: "dom ds = set (MetricNames q)"
  proof
    show "dom ds \<subseteq> set (MetricNames q)"
    proof
      fix x assume "x \<in> dom ds"
      then show "x \<in> set (MetricNames q)" using D by (cases "x \<in> set (MetricNames q)") auto
    qed
    show "set (MetricNames q) \<subseteq> dom ds" using D by blast
  qed
  from L have names_eq: "names = map (\<lambda>l. case Columns q l of
                        Some c \<Rightarrow> (if Rename c \<noteq> [] then Rename c else Column.Name c)
                      | None \<Rightarrow> []) (LabelNames q)"
    and lab: "\<forall>l\<in>set (LabelNames q). Columns q l \<noteq> None"
    by simp_all
  from D have "\<forall>m\<in>set (MetricNames q). \<exists>col. Columns q m = Some col \<and>
            ds m = Some (NewDesc vm cl (Query.Name q @ ''_'' @ (if Rename col \<noteq> [] then Rename col
                                                else Column.Name col)) (Desc col) names (labels s))"
    by blast
  with names_eq lab dom c show ?thesis by simp
qed

subsection \<open>The rows of a result\<close>

lemma dom_columnIndexes_from: "dom (columnIndexes_from i ns m) = dom m \<union> set ns"
  by (induction ns arbitrary: i m) auto

lemma dom_columnIndexes: "dom (columnIndexes ns) = set ns"
  by (simp add: columnIndexes_def dom_columnIndexes_from)

lemma columnIndexes_found: "(columnIndexes ns n \<noteq> None) = (n \<in> set ns)"
  using dom_columnIndexes [of ns] by (auto simp: dom_def)

lemma columnIndexes_Some_iff: "(\<exists>i. columnIndexes ns n = Some i) = (n \<in> set ns)"
  using columnIndexes_found [of ns n] by simp

text \<open>Every index in \<open>columnIndexes\<close> is within the row, so the reads \<open>colData ! dataIndex\<close> of
  the row loop are in range.\<close>

lemma columnIndexes_from_range:
  "columnIndexes_from i ns m n = Some k \<Longrightarrow> m n = Some k \<or> (i \<le> k \<and> k < i + length ns)"
proof (induction ns arbitrary: i m)
  case Nil
  then show ?case by simp
next
  case (Cons a ns)
  from Cons.prems have "columnIndexes_from (Suc i) ns (m(a \<mapsto> i)) n = Some k"
    by simp
  from Cons.IH [OF this]
  have "(m(a \<mapsto> i)) n = Some k \<or> (Suc i \<le> k \<and> k < Suc i + length ns)" .
  then show ?case
    by (cases "n = a") auto
qed

lemma columnIndexes_in_range:
  "columnIndexes columnNames n = Some k \<Longrightarrow> k < length columnNames"
  using columnIndexes_from_range [of 0 columnNames Map.empty n k]
  by (simp add: columnIndexes_def)

text \<open>The row loop builds the samples of the design, when no call of
  \<open>MustNewConstMetric\<close> panics: the metric columns found in the result have their column
  and a descriptor that is not in error and has one label name for each label column, and the
  label values read from the result are valid UTF-8.\<close>

lemma row_metrics_exact:
  assumes "\<forall>m\<in>set ms. ci m \<noteq> None \<longrightarrow>
             (\<exists>c d. Columns (Query q) m = Some c \<and> descriptors q m = Some d
                    \<and> \<not> prometheus_Desc.err d
                    \<and> length (variableLabels d) = length lbls)"
    and "list_all utf8_ValidString lbls"
  shows "row_metrics cf q ci cd lbls ms res =
           Some (res @ map (\<lambda>m. \<lparr>desc = the (descriptors q m),
                                  valType = PrometheusValueType (the (Columns (Query q) m)),
                                  val = cf (cd ! the (ci m))
                                          (Scale (the (Columns (Query q) m)))
                                          (Default (the (Columns (Query q) m))),
                                  labelValues = lbls\<rparr>)
                           (filter (\<lambda>m. ci m \<noteq> None) ms))"
  using assms
proof (induction ms arbitrary: res)
  case Nil
  then show ?case by simp
next
  case (Cons m ms)
  from Cons.prems have rest: "\<forall>m\<in>set ms. ci m \<noteq> None \<longrightarrow>
             (\<exists>c d. Columns (Query q) m = Some c \<and> descriptors q m = Some d
                    \<and> \<not> prometheus_Desc.err d
                    \<and> length (variableLabels d) = length lbls)"
    by simp
  note ih = Cons.IH [OF rest Cons.prems(2)]
  show ?case
  proof (cases "ci m")
    case None
    with ih [of res] show ?thesis by simp
  next
    case (Some i)
    with Cons.prems(1) obtain c d where c: "Columns (Query q) m = Some c"
      and d: "descriptors q m = Some d" and ok: "\<not> prometheus_Desc.err d"
      and len: "length (variableLabels d) = length lbls"
      by auto
    let ?x = "\<lparr>desc = d, valType = PrometheusValueType c,
               val = cf (cd ! i) (Scale c) (Default c), labelValues = lbls\<rparr>"
    have "row_metrics cf q ci cd lbls (m # ms) res = row_metrics cf q ci cd lbls ms (res @ [?x])"
      using Some c d ok len Cons.prems(2) by (simp add: MustNewConstMetric_def)
    with ih [of "res @ [?x]"] Some c d show ?thesis by simp
  qed
qed

lemma utf8_ValidString_Nil: "utf8_ValidString []"
  by (simp add: utf8_ValidString_def)

lemma spec_row_samples_result:
  "spec_row_samples cs cf (q\<lparr>result := r\<rparr>) cn vals = spec_row_samples cs cf q cn vals"
  by (simp add: spec_row_samples_def)

lemma scan_loop_exact:
  assumes "\<forall>r\<in>set rws. \<exists>vals. r = Inr vals \<and> length vals = length cn"
    and "\<forall>m\<in>set (MetricNames (Query q)). m \<in> set cn \<longrightarrow>
           (\<exists>c d. Columns (Query q) m = Some c \<and> descriptors q m = Some d
                  \<and> \<not> prometheus_Desc.err d
                  \<and> length (variableLabels d) = length (LabelNames (Query q)))"
    and "\<forall>vals. Inr vals \<in> set rws \<longrightarrow>
           (\<forall>l\<in>set (LabelNames (Query q)). \<forall>i. columnIndexes cn l = Some i \<longrightarrow>
              utf8_ValidString (cs (vals ! i)))"
  shows "scan_loop cs cf (columnIndexes cn) (length cn) rws q =
           Some (q\<lparr>result := result q @ spec_samples cs cf q cn rws, err := None\<rparr>)"
  using assms
proof (induction rws arbitrary: q)
  case Nil
  then show ?case by (simp add: spec_samples_def)
next
  case (Cons r rws)
  from Cons.prems(1) obtain vals where r: "r = Inr vals" and len: "length vals = length cn"
    by auto
  let ?ci = "columnIndexes cn"
  let ?lbls = "row_labels cs (LabelNames (Query q)) ?ci vals"
  have ll: "length ?lbls = length (LabelNames (Query q))"
    by (simp add: row_labels_def)
  have valid: "list_all utf8_ValidString ?lbls"
    using Cons.prems(3) r
    by (auto simp: row_labels_def list_all_iff utf8_ValidString_Nil split: option.splits)
  have wf: "\<forall>m\<in>set (MetricNames (Query q)). ?ci m \<noteq> None \<longrightarrow>
           (\<exists>c d. Columns (Query q) m = Some c \<and> descriptors q m = Some d
                  \<and> \<not> prometheus_Desc.err d
                  \<and> length (variableLabels d) = length ?lbls)"
    using Cons.prems(2) ll unfolding columnIndexes_found by simp
  have row: "row_metrics cf q ?ci vals ?lbls (MetricNames (Query q)) (result q) =
               Some (result q @ spec_row_samples cs cf q cn vals)"
    unfolding row_metrics_exact [OF wf valid]
    by (simp add: spec_row_samples_def row_labels_def columnIndexes_Some_iff)
  let ?q1 = "q\<lparr>result := result q @ spec_row_samples cs cf q cn vals\<rparr>"
  have rows: "\<forall>r\<in>set rws. \<exists>vals. r = Inr vals \<and> length vals = length cn"
    using Cons.prems(1) by simp
  have wf1: "\<forall>m\<in>set (MetricNames (Query ?q1)). m \<in> set cn \<longrightarrow>
           (\<exists>c d. Columns (Query ?q1) m = Some c \<and> descriptors ?q1 m = Some d
                  \<and> \<not> prometheus_Desc.err d
                  \<and> length (variableLabels d) = length (LabelNames (Query ?q1)))"
    using Cons.prems(2) by simp
  have v1: "\<forall>vals. Inr vals \<in> set rws \<longrightarrow>
           (\<forall>l\<in>set (LabelNames (Query ?q1)). \<forall>i. columnIndexes cn l = Some i \<longrightarrow>
              utf8_ValidString (cs (vals ! i)))"
    using Cons.prems(3) by simp
  have same: "spec_samples cs cf ?q1 cn rws = spec_samples cs cf q cn rws"
    by (simp add: spec_samples_def spec_row_samples_result cong: sum.case_cong)
  have "scan_loop cs cf ?ci (length cn) (r # rws) q = scan_loop cs cf ?ci (length cn) rws ?q1"
    using r len row by (simp add: rows_Scan_def)
  also have "\<dots> = Some (?q1\<lparr>result := result ?q1 @ spec_samples cs cf ?q1 cn rws, err := None\<rparr>)"
    by (rule Cons.IH [OF rows wf1 v1])
  also have "\<dots> = Some (q\<lparr>result := result q @ spec_samples cs cf q cn (r # rws), err := None\<rparr>)"
    using r same by (simp add: spec_samples_def)
  finally show ?case .
qed

lemma execute_exact:
  assumes answer: "DB (Server q) (execute_call (Query q) ctx) = Inr (Rows (Inr cn) rws)"
    and scans: "\<forall>r\<in>set rws. \<exists>vals. r = Inr vals \<and> length vals = length cn"
    and wf: "\<forall>m\<in>set (MetricNames (Query q)). m \<in> set cn \<longrightarrow>
           (\<exists>c d. Columns (Query q) m = Some c \<and> descriptors q m = Some d
                  \<and> \<not> prometheus_Desc.err d
                  \<and> length (variableLabels d) = length (LabelNames (Query q)))"
    and valid: "\<forall>vals. Inr vals \<in> set rws \<longrightarrow>
           (\<forall>l\<in>set (LabelNames (Query q)). \<forall>i. columnIndexes cn l = Some i \<longrightarrow>
              utf8_ValidString (cs (vals ! i)))"
  shows "snd (execute cs cf now ctx q) =
           Some (q\<lparr>result := spec_samples cs cf q cn rws, err := None\<rparr>)"
proof -
  let ?q0 = "q\<lparr>result := []\<rparr>"
  have wf0: "\<forall>m\<in>set (MetricNames (Query ?q0)). m \<in> set cn \<longrightarrow>
           (\<exists>c d. Columns (Query ?q0) m = Some c \<and> descriptors ?q0 m = Some d
                  \<and> \<not> prometheus_Desc.err d
                  \<and> length (variableLabels d) = length (LabelNames (Query ?q0)))"
    using wf by simp
  have v0: "\<forall>vals. Inr vals \<in> set rws \<longrightarrow>
           (\<forall>l\<in>set (LabelNames (Query ?q0)). \<forall>i. columnIndexes cn l = Some i \<longrightarrow>
              utf8_ValidString (cs (vals ! i)))"
    using valid by simp
  have same: "spec_samples cs cf ?q0 cn rws = spec_samples cs cf q cn rws"
    by (simp add: spec_samples_def spec_row_samples_result cong: sum.case_cong)
  from scan_loop_exact [OF scans wf0 v0, of cf] same answer
  show ?thesis by (simp add: execute_def Let_def)
qed

lemma length_spec_samples:
  "\<forall>r\<in>set rws. \<exists>vals. r = Inr vals \<Longrightarrow>
     length (spec_samples cs cf q cn rws) =
       length rws * length (filter (\<lambda>m. m \<in> set cn) (MetricNames (Query q)))"
  by (induction rws) (auto simp: spec_samples_def spec_row_samples_def)

lemma in_spec_samples:
  assumes "x \<in> set (spec_samples cs cf q cn rws)"
  shows "\<exists>vals m. Inr vals \<in> set rws \<and> m \<in> set (MetricNames (Query q)) \<and> m \<in> set cn
           \<and> desc x = the (descriptors q m)
           \<and> labelValues x =
               map (\<lambda>l. case columnIndexes cn l of
                           Some i \<Rightarrow> cs (vals ! i)
                         | None \<Rightarrow> [])
                   (LabelNames (Query q))"
proof -
  from assms obtain r where r: "r \<in> set rws"
    and x: "x \<in> set (case r of Inr vals \<Rightarrow> spec_row_samples cs cf q cn vals | Inl e \<Rightarrow> [])"
    by (auto simp: spec_samples_def)
  from x obtain vals where vals: "r = Inr vals" and xs: "x \<in> set (spec_row_samples cs cf q cn vals)"
    by (cases r) auto
  from xs obtain m where m: "m \<in> set (MetricNames (Query q))" "m \<in> set cn"
    and xm: "desc x = the (descriptors q m)"
      "labelValues x =
               map (\<lambda>l. case columnIndexes cn l of
                           Some i \<Rightarrow> cs (vals ! i)
                         | None \<Rightarrow> [])
                   (LabelNames (Query q))"
    by (auto simp: spec_row_samples_def)
  from r vals m xm show ?thesis by blast
qed

subsection \<open>Descriptors and renamed columns\<close>

text \<open>
  C3. For a collector built by \<open>NewCollector\<close> from a query whose column map is keyed by the
  columns' names: the descriptor of a metric column is stored under the original column name
  and is the one \<open>NewDesc\<close> makes of the query name, an underscore and the rename when there
  is one, the column name otherwise, with the renames of the label columns, their names
  otherwise, as its label names; the descriptor map has exactly the metric column names as
  keys. An execution whose rows scan, on descriptors that are not in error and label values
  that are valid UTF-8, leaves exactly the samples of the design: the value of a sample and
  each of its label values are read from the result column named by the original column
  name, whatever the renames.
\<close>

theorem rename_keeps_lookup_key:
  assumes built: "NewCollector validMetricName checkLabelName q s = Some c"
    and keyed: "\<forall>m\<in>set (MetricNames q). \<forall>col. Columns q m = Some col \<longrightarrow> Column.Name col = m"
    and m: "metricName \<in> set (MetricNames q)"
  shows "\<exists>col d.
      Columns q metricName = Some col
    \<and> descriptors c metricName = Some d
    \<and> d = NewDesc validMetricName checkLabelName
              (Query.Name q @ ''_'' @ (if Rename col \<noteq> [] then Rename col else Column.Name col))
              (Desc col)
              (map (\<lambda>l. case Columns q l of
                          Some lc \<Rightarrow> (if Rename lc \<noteq> [] then Rename lc else Column.Name lc)
                        | None \<Rightarrow> []) (LabelNames q))
              (labels s)
    \<and> fqName d = Query.Name q @ ''_'' @ (if Rename col \<noteq> [] then Rename col
                                           else Column.Name col)
    \<and> variableLabels d =
        map (\<lambda>l. case Columns q l of
                    Some lc \<Rightarrow> (if Rename lc \<noteq> [] then Rename lc else Column.Name lc)
                  | None \<Rightarrow> []) (LabelNames q)
    \<and> (\<forall>l\<in>set (LabelNames q). Columns q l \<noteq> None)
    \<and> dom (descriptors c) = set (MetricNames q)
    \<and> (\<forall>castString castFloat64 now ctx columnNames rws.
          DB s (execute_call q ctx) = Inr (Rows (Inr columnNames) rws)
          \<and> (\<forall>r\<in>set rws. \<exists>vals. r = Inr vals \<and> length vals = length columnNames)
          \<and> (\<forall>m'\<in>set (MetricNames q). \<forall>d'. descriptors c m' = Some d'
                 \<longrightarrow> \<not> prometheus_Desc.err d')
          \<and> (\<forall>vals. Inr vals \<in> set rws \<longrightarrow>
                 (\<forall>l\<in>set (LabelNames q). \<forall>i. columnIndexes columnNames l = Some i \<longrightarrow>
                    utf8_ValidString (castString (vals ! i))))
          \<longrightarrow> snd (execute castString castFloat64 now ctx c) =
                Some (c\<lparr>result := spec_samples castString castFloat64 c columnNames rws,
                        err := None\<rparr>))"
proof -
  note W = NewCollector_well_formed [OF built keyed]
  from W have qc: "Query c = q" and sc: "Server c = s" by simp_all
  let ?lbls = "map (\<lambda>l. case Columns q l of
                          Some lc \<Rightarrow> (if Rename lc \<noteq> [] then Rename lc else Column.Name lc)
                        | None \<Rightarrow> []) (LabelNames q)"
  from W m obtain col where col: "Columns q metricName = Some col"
    and d: "descriptors c metricName =
              Some (NewDesc validMetricName checkLabelName
                      (Query.Name q @ ''_'' @ (if Rename col \<noteq> [] then Rename col
                                              else Column.Name col))
                      (Desc col) ?lbls (labels s))"
    by blast
  have exec: "\<forall>castString castFloat64 now ctx columnNames rws.
          DB s (execute_call q ctx) = Inr (Rows (Inr columnNames) rws)
          \<and> (\<forall>r\<in>set rws. \<exists>vals. r = Inr vals \<and> length vals = length columnNames)
          \<and> (\<forall>m'\<in>set (MetricNames q). \<forall>d'. descriptors c m' = Some d'
                 \<longrightarrow> \<not> prometheus_Desc.err d')
          \<and> (\<forall>vals. Inr vals \<in> set rws \<longrightarrow>
                 (\<forall>l\<in>set (LabelNames q). \<forall>i. columnIndexes columnNames l = Some i \<longrightarrow>
                    utf8_ValidString (castString (vals ! i))))
          \<longrightarrow> snd (execute castString castFloat64 now ctx c) =
                Some (c\<lparr>result := spec_samples castString castFloat64 c columnNames rws,
                        err := None\<rparr>)"
  proof (intro allI impI, elim conjE)
    fix castString :: "'a \<Rightarrow> string" and castFloat64 :: "'a \<Rightarrow> float64 \<Rightarrow> float64 \<Rightarrow> float64"
      and now ctx columnNames and rws :: "(go_error + 'a list) list"
    assume answer: "DB s (execute_call q ctx) = Inr (Rows (Inr columnNames) rws)"
      and scans: "\<forall>r\<in>set rws. \<exists>vals. r = Inr vals \<and> length vals = length columnNames"
      and ok: "\<forall>m'\<in>set (MetricNames q). \<forall>d'. descriptors c m' = Some d'
                 \<longrightarrow> \<not> prometheus_Desc.err d'"
      and valid: "\<forall>vals. Inr vals \<in> set rws \<longrightarrow>
                 (\<forall>l\<in>set (LabelNames q). \<forall>i. columnIndexes columnNames l = Some i \<longrightarrow>
                    utf8_ValidString (castString (vals ! i)))"
    have a: "DB (Server c) (execute_call (Query c) ctx) = Inr (Rows (Inr columnNames) rws)"
      using answer qc sc by simp
    have wf: "\<forall>m\<in>set (MetricNames (Query c)). m \<in> set columnNames \<longrightarrow>
           (\<exists>col d. Columns (Query c) m = Some col \<and> descriptors c m = Some d
                  \<and> \<not> prometheus_Desc.err d
                  \<and> length (variableLabels d) = length (LabelNames (Query c)))"
    proof (intro ballI impI)
      fix m' assume m': "m' \<in> set (MetricNames (Query c))"
      with W qc obtain col' where c': "Columns q m' = Some col'"
        and d': "descriptors c m' =
              Some (NewDesc validMetricName checkLabelName
                      (Query.Name q @ ''_'' @ (if Rename col' \<noteq> [] then Rename col'
                                              else Column.Name col'))
                      (Desc col') ?lbls (labels s))"
        by auto
      from ok m' qc d' have "\<not> prometheus_Desc.err (NewDesc validMetricName checkLabelName
                      (Query.Name q @ ''_'' @ (if Rename col' \<noteq> [] then Rename col'
                                              else Column.Name col'))
                      (Desc col') ?lbls (labels s))"
        by simp
      with c' d' qc
      show "\<exists>col d. Columns (Query c) m' = Some col \<and> descriptors c m' = Some d
                  \<and> \<not> prometheus_Desc.err d
                  \<and> length (variableLabels d) = length (LabelNames (Query c))"
        by (simp add: NewDesc_def)
    qed
    have v: "\<forall>vals. Inr vals \<in> set rws \<longrightarrow>
           (\<forall>l\<in>set (LabelNames (Query c)). \<forall>i. columnIndexes columnNames l = Some i \<longrightarrow>
              utf8_ValidString (castString (vals ! i)))"
      using valid qc by simp
    show "snd (execute castString castFloat64 now ctx c) =
                Some (c\<lparr>result := spec_samples castString castFloat64 c columnNames rws,
                        err := None\<rparr>)"
      using scans by (intro execute_exact [OF a _ wf v]) simp
  qed
  from W have lab: "\<forall>l\<in>set (LabelNames q). Columns q l \<noteq> None"
    and dom: "dom (descriptors c) = set (MetricNames q)"
    by simp_all
  from col d lab dom exec show ?thesis
    by (simp add: NewDesc_def)
qed

text \<open>The names of the example pass the stand-in checks, and \<open>NewCollector\<close> builds the
  example collector.\<close>

lemma ex_names_valid:
  "ex_validMetricName ''db_size_bytes''" "ex_checkLabelName ''database''"
  "ex_checkLabelName ''datname''" "ex_checkLabelName ''job''"
  by (simp_all add: ex_validMetricName_def ex_checkLabelName_def ex_letter_def ex_digit_def)

lemma ex_built_renamed_built:
  "NewCollector ex_validMetricName ex_checkLabelName ex_query_renamed (ex_server False answer) =
     Some (ex_built_renamed answer)"
  by (simp add: NewCollector_def makeDescMap_def ex_built_renamed_def ex_query_renamed_def
        ex_desc_renamed_def ex_defs NewDesc_def ex_names_valid utf8_ValidString_def)

text \<open>The label column \<open>datname\<close> renamed to \<open>database\<close> and the metric column \<open>size\<close> renamed
  to \<open>bytes\<close>: the descriptor is found under \<open>size\<close>, named \<open>db_size_bytes\<close>, with the label
  name \<open>database\<close>. Result columns \<open>datname\<close> and \<open>size\<close> give the label values and the
  samples; a result column \<open>database\<close> gives the empty label; a result column \<open>bytes\<close> gives
  no sample.\<close>

theorem rename_keeps_lookup_key_witness:
  "NewCollector ex_validMetricName ex_checkLabelName ex_query_renamed
      (ex_server False (Inr ex_rows)) = Some (ex_built_renamed (Inr ex_rows))
   \<and> ''size'' \<in> set (MetricNames ex_query_renamed)
   \<and> map_option Rename (Columns ex_query_renamed ''size'') = Some ''bytes''
   \<and> map_option Rename (Columns ex_query_renamed ''datname'') = Some ''database''
   \<and> descriptors (ex_built_renamed (Inr ex_rows)) ''size'' = Some ex_desc_renamed
   \<and> descriptors (ex_built_renamed (Inr ex_rows)) ''bytes'' = None
   \<and> fqName ex_desc_renamed = ''db_size_bytes''
   \<and> variableLabels ex_desc_renamed = [''database'']
   \<and> snd (execute ex_castString ex_castFloat64 22 Background (ex_built_renamed (Inr ex_rows))) =
       Some ((ex_built_renamed (Inr ex_rows))
               \<lparr>result := [\<lparr>desc = ex_desc_renamed, valType = GaugeValue, val = 100,
                              labelValues = [''a'']\<rparr>,
                            \<lparr>desc = ex_desc_renamed, valType = GaugeValue, val = 200,
                              labelValues = [''b'']\<rparr>],
                err := None\<rparr>)
   \<and> snd (execute ex_castString ex_castFloat64 22 Background
             (ex_built_renamed (Inr ex_rows_renamed_label))) =
       Some ((ex_built_renamed (Inr ex_rows_renamed_label))
               \<lparr>result := [\<lparr>desc = ex_desc_renamed, valType = GaugeValue, val = 100,
                              labelValues = [[]]\<rparr>],
                err := None\<rparr>)
   \<and> snd (execute ex_castString ex_castFloat64 22 Background
             (ex_built_renamed (Inr ex_rows_renamed_metric))) =
       Some ((ex_built_renamed (Inr ex_rows_renamed_metric))\<lparr>result := [], err := None\<rparr>)"
proof -
  let ?c = "ex_built_renamed (Inr ex_rows)"
  have built: "NewCollector ex_validMetricName ex_checkLabelName ex_query_renamed
                 (ex_server False (Inr ex_rows)) = Some ?c"
    by (rule ex_built_renamed_built)
  have keyed: "\<forall>m\<in>set (MetricNames ex_query_renamed). \<forall>col.
                 Columns ex_query_renamed m = Some col \<longrightarrow> Column.Name col = m"
    by (simp add: ex_query_renamed_def ex_defs)
  have m: "''size'' \<in> set (MetricNames ex_query_renamed)"
    by (simp add: ex_query_renamed_def ex_defs)
  from rename_keeps_lookup_key [OF built keyed m] obtain col d where
    d: "descriptors ?c ''size'' = Some d"
    and exec: "\<forall>castString castFloat64 now ctx columnNames rws.
          DB (ex_server False (Inr ex_rows)) (execute_call ex_query_renamed ctx) =
            Inr (Rows (Inr columnNames) rws)
          \<and> (\<forall>r\<in>set rws. \<exists>vals. r = Inr vals \<and> length vals = length columnNames)
          \<and> (\<forall>m'\<in>set (MetricNames ex_query_renamed). \<forall>d'. descriptors ?c m' = Some d'
                 \<longrightarrow> \<not> prometheus_Desc.err d')
          \<and> (\<forall>vals. Inr vals \<in> set rws \<longrightarrow>
                 (\<forall>l\<in>set (LabelNames ex_query_renamed). \<forall>i.
                    columnIndexes columnNames l = Some i \<longrightarrow>
                    utf8_ValidString (castString (vals ! i))))
          \<longrightarrow> snd (execute castString castFloat64 now ctx ?c) =
                Some (?c\<lparr>result := spec_samples castString castFloat64 ?c columnNames rws,
                         err := None\<rparr>)"
    by blast
  have answer: "DB (ex_server False (Inr ex_rows)) (execute_call ex_query_renamed Background) =
            Inr (Rows (Inr [''datname'', ''size''])
                   [Inr [TextV ''a'', IntV 100], Inr [TextV ''b'', IntV 200]])"
    by (simp add: ex_defs)
  have scans: "\<forall>r\<in>set [Inr [TextV ''a'', IntV 100], Inr [TextV ''b'', IntV 200]].
                 \<exists>vals. r = Inr vals \<and> length vals = length [''datname'', ''size'']"
    by simp
  have ok: "\<forall>m'\<in>set (MetricNames ex_query_renamed). \<forall>d'. descriptors ?c m' = Some d'
                 \<longrightarrow> \<not> prometheus_Desc.err d'"
    by (simp add: ex_query_renamed_def ex_built_renamed_def ex_desc_renamed_def ex_defs)
  have valid: "\<forall>vals. Inr vals \<in> set [Inr [TextV ''a'', IntV 100], Inr [TextV ''b'', IntV 200]]
                 \<longrightarrow> (\<forall>l\<in>set (LabelNames ex_query_renamed). \<forall>i.
                    columnIndexes [''datname'', ''size''] l = Some i \<longrightarrow>
                    utf8_ValidString (ex_castString (vals ! i)))"
    by (auto simp: ex_query_renamed_def ex_defs columnIndexes_def utf8_ValidString_def)
  from exec answer scans ok valid
  have run: "snd (execute ex_castString ex_castFloat64 22 Background ?c) =
                Some (?c\<lparr>result := spec_samples ex_castString ex_castFloat64 ?c
                                      [''datname'', ''size'']
                                      [Inr [TextV ''a'', IntV 100], Inr [TextV ''b'', IntV 200]],
                         err := None\<rparr>)"
    by blast
  have samples: "spec_samples ex_castString ex_castFloat64 ?c [''datname'', ''size'']
                   [Inr [TextV ''a'', IntV 100], Inr [TextV ''b'', IntV 200]] =
                 [\<lparr>desc = ex_desc_renamed, valType = GaugeValue, val = 100,
                    labelValues = [''a'']\<rparr>,
                  \<lparr>desc = ex_desc_renamed, valType = GaugeValue, val = 200,
                    labelValues = [''b'']\<rparr>]"
    by (simp add: spec_samples_def spec_row_samples_def ex_built_renamed_def
          ex_query_renamed_def ex_defs columnIndexes_def)
  have other: "snd (execute ex_castString ex_castFloat64 22 Background
             (ex_built_renamed (Inr ex_rows_renamed_label))) =
       Some ((ex_built_renamed (Inr ex_rows_renamed_label))
               \<lparr>result := [\<lparr>desc = ex_desc_renamed, valType = GaugeValue, val = 100,
                              labelValues = [[]]\<rparr>],
                err := None\<rparr>)"
    "snd (execute ex_castString ex_castFloat64 22 Background
             (ex_built_renamed (Inr ex_rows_renamed_metric))) =
       Some ((ex_built_renamed (Inr ex_rows_renamed_metric))\<lparr>result := [], err := None\<rparr>)"
    by (simp_all add: ex_built_renamed_def ex_query_renamed_def ex_desc_renamed_def
          ex_rows_renamed_label_def ex_rows_renamed_metric_def ex_defs eval_defs)
  have fields: "map_option Rename (Columns ex_query_renamed ''size'') = Some ''bytes''"
    "map_option Rename (Columns ex_query_renamed ''datname'') = Some ''database''"
    "descriptors ?c ''size'' = Some ex_desc_renamed"
    "descriptors ?c ''bytes'' = None"
    "fqName ex_desc_renamed = ''db_size_bytes''"
    "variableLabels ex_desc_renamed = [''database'']"
    by (simp_all add: ex_built_renamed_def ex_query_renamed_def ex_desc_renamed_def ex_defs)
  from built m fields run samples other show ?thesis
    by simp
qed

text \<open>A label column renamed to the name of a constant label: the descriptor is in error and
  the first sample makes \<open>MustNewConstMetric\<close> panic.\<close>

lemma colliding_rename_panics:
  "map_option (\<lambda>c. map_option prometheus_Desc.err (descriptors c ''size''))
      (NewCollector ex_validMetricName ex_checkLabelName ex_query_colliding
         (ex_server False (Inr ex_rows))) = Some (Some True)
   \<and> (case NewCollector ex_validMetricName ex_checkLabelName ex_query_colliding
             (ex_server False (Inr ex_rows)) of
         Some c \<Rightarrow> snd (execute ex_castString ex_castFloat64 22 Background c) = None
       | None \<Rightarrow> False)"
  by (simp add: NewCollector_def makeDescMap_def ex_query_colliding_def ex_defs NewDesc_def
        ex_names_valid eval_defs)

subsection \<open>Missing result columns\<close>

text \<open>
  C4. When the query and the column metadata succeed and every row scans, \<open>execute\<close> ends
  with no error whatever columns the result lacks, and leaves exactly the samples of the
  design. Every row contributes one sample for each configured metric column that the result
  has, and none for a metric column it lacks: every sample carries the descriptor of a metric
  column found in the result. Every sample carries one label value for each configured label
  column, the empty string where the result lacks that column. (No call of
  \<open>MustNewConstMetric\<close> panics: the metric columns found in the result have their column
  and a descriptor that is not in error and has the configured number of label names, as
  \<open>NewCollector\<close> builds it from valid names, and the label values read from the result are
  valid UTF-8.)
\<close>

theorem missing_columns_are_not_errors:
  assumes answer: "DB (Server q) (execute_call (Query q) ctx) = Inr (Rows (Inr columnNames) rws)"
    and scans: "\<forall>r\<in>set rws. \<exists>vals. r = Inr vals \<and> length vals = length columnNames"
    and wf: "\<forall>m\<in>set (MetricNames (Query q)). m \<in> set columnNames \<longrightarrow>
               (\<exists>c d. Columns (Query q) m = Some c \<and> descriptors q m = Some d
                      \<and> \<not> prometheus_Desc.err d
                      \<and> length (variableLabels d) = length (LabelNames (Query q)))"
    and valid: "\<forall>vals. Inr vals \<in> set rws \<longrightarrow>
               (\<forall>l\<in>set (LabelNames (Query q)). \<forall>i. columnIndexes columnNames l = Some i \<longrightarrow>
                  utf8_ValidString (castString (vals ! i)))"
  shows "\<exists>q'. snd (execute castString castFloat64 now ctx q) = Some q'
      \<and> err q' = None
      \<and> result q' = spec_samples castString castFloat64 q columnNames rws
      \<and> length (result q') =
          length rws * length (filter (\<lambda>m. m \<in> set columnNames) (MetricNames (Query q)))
      \<and> (\<forall>x\<in>set (result q').
            length (labelValues x) = length (LabelNames (Query q))
            \<and> (\<forall>i<length (LabelNames (Query q)).
                  LabelNames (Query q) ! i \<notin> set columnNames \<longrightarrow> labelValues x ! i = []))
      \<and> (\<forall>x\<in>set (result q').
            \<exists>m\<in>set (MetricNames (Query q)). m \<in> set columnNames
               \<and> descriptors q m = Some (desc x))"
proof -
  let ?res = "spec_samples castString castFloat64 q columnNames rws"
  let ?q' = "q\<lparr>result := ?res, err := None\<rparr>"
  have ex: "snd (execute castString castFloat64 now ctx q) = Some ?q'"
    by (rule execute_exact [OF answer scans wf valid])
  have cnt: "length ?res =
          length rws * length (filter (\<lambda>m. m \<in> set columnNames) (MetricNames (Query q)))"
    using scans by (intro length_spec_samples) blast
  have lab: "\<forall>x\<in>set ?res.
            length (labelValues x) = length (LabelNames (Query q))
            \<and> (\<forall>i<length (LabelNames (Query q)).
                  LabelNames (Query q) ! i \<notin> set columnNames \<longrightarrow> labelValues x ! i = [])"
  proof
    fix x assume "x \<in> set ?res"
    from in_spec_samples [OF this] obtain vals where
      lv: "labelValues x =
             map (\<lambda>l. case columnIndexes columnNames l of
                         Some i \<Rightarrow> castString (vals ! i)
                       | None \<Rightarrow> [])
                 (LabelNames (Query q))"
      by blast
    have "\<And>i. i < length (LabelNames (Query q)) \<Longrightarrow>
            LabelNames (Query q) ! i \<notin> set columnNames \<Longrightarrow> labelValues x ! i = []"
    proof -
      fix i assume i: "i < length (LabelNames (Query q))"
        and miss: "LabelNames (Query q) ! i \<notin> set columnNames"
      from miss have "columnIndexes columnNames (LabelNames (Query q) ! i) = None"
        using columnIndexes_found [of columnNames "LabelNames (Query q) ! i"] by simp
      with i lv show "labelValues x ! i = []" by simp
    qed
    with lv show "length (labelValues x) = length (LabelNames (Query q))
            \<and> (\<forall>i<length (LabelNames (Query q)).
                  LabelNames (Query q) ! i \<notin> set columnNames \<longrightarrow> labelValues x ! i = [])"
      by simp
  qed
  have met: "\<forall>x\<in>set ?res. \<exists>m\<in>set (MetricNames (Query q)). m \<in> set columnNames
               \<and> descriptors q m = Some (desc x)"
  proof
    fix x assume "x \<in> set ?res"
    from in_spec_samples [OF this] obtain m where
      m: "m \<in> set (MetricNames (Query q))" "m \<in> set columnNames"
        "desc x = the (descriptors q m)"
      by blast
    with wf obtain d where "descriptors q m = Some d" by blast
    with m show "\<exists>m\<in>set (MetricNames (Query q)). m \<in> set columnNames
               \<and> descriptors q m = Some (desc x)"
      by auto
  qed
  from ex cnt lab met show ?thesis by simp
qed

text \<open>A result without the label column gives samples with the empty label; a result
  without the metric column gives no sample; neither sets an error.\<close>

theorem missing_columns_are_not_errors_witness:
  "snd (execute ex_castString ex_castFloat64 22 Background
          (ex_collector False (Inr ex_rows_nolabel) 0)) =
     Some ((ex_collector False (Inr ex_rows_nolabel) 0)
             \<lparr>result := [ex_sample [] 100, ex_sample [] 200], err := None\<rparr>)
   \<and> snd (execute ex_castString ex_castFloat64 22 Background
          (ex_collector False (Inr ex_rows_nometric) 0)) =
     Some ((ex_collector False (Inr ex_rows_nometric) 0)\<lparr>result := [], err := None\<rparr>)"
proof -
  let ?q = "ex_collector False (Inr ex_rows_nolabel) 0"
  let ?p = "ex_collector False (Inr ex_rows_nometric) 0"
  have a1: "DB (Server ?q) (execute_call (Query ?q) Background) =
              Inr (Rows (Inr [''size'']) [Inr [IntV 100], Inr [IntV 200]])"
    by (simp add: ex_defs ex_rows_nolabel_def)
  have s1: "\<forall>r\<in>set [Inr [IntV 100], Inr [IntV 200]].
              \<exists>vals. r = Inr vals \<and> length vals = length [''size'']"
    by simp
  have w1: "\<forall>m\<in>set (MetricNames (Query ?q)). m \<in> set [''size''] \<longrightarrow>
               (\<exists>c d. Columns (Query ?q) m = Some c \<and> descriptors ?q m = Some d
                      \<and> \<not> prometheus_Desc.err d
                      \<and> length (variableLabels d) = length (LabelNames (Query ?q)))"
    by (simp add: ex_defs)
  have v1: "\<forall>vals. Inr vals \<in> set [Inr [IntV 100], Inr [IntV 200]] \<longrightarrow>
               (\<forall>l\<in>set (LabelNames (Query ?q)). \<forall>i. columnIndexes [''size''] l = Some i \<longrightarrow>
                  utf8_ValidString (ex_castString (vals ! i)))"
    by (simp add: ex_defs columnIndexes_def)
  have a2: "DB (Server ?p) (execute_call (Query ?p) Background) =
              Inr (Rows (Inr [''datname'']) [Inr [TextV ''a''], Inr [TextV ''b'']])"
    by (simp add: ex_defs ex_rows_nometric_def)
  have s2: "\<forall>r\<in>set [Inr [TextV ''a''], Inr [TextV ''b'']].
              \<exists>vals. r = Inr vals \<and> length vals = length [''datname'']"
    by simp
  have w2: "\<forall>m\<in>set (MetricNames (Query ?p)). m \<in> set [''datname''] \<longrightarrow>
               (\<exists>c d. Columns (Query ?p) m = Some c \<and> descriptors ?p m = Some d
                      \<and> \<not> prometheus_Desc.err d
                      \<and> length (variableLabels d) = length (LabelNames (Query ?p)))"
    by (simp add: ex_defs)
  have v2: "\<forall>vals. Inr vals \<in> set [Inr [TextV ''a''], Inr [TextV ''b'']] \<longrightarrow>
               (\<forall>l\<in>set (LabelNames (Query ?p)). \<forall>i. columnIndexes [''datname''] l = Some i \<longrightarrow>
                  utf8_ValidString (ex_castString (vals ! i)))"
    by (auto simp: ex_defs columnIndexes_def utf8_ValidString_def)
  from missing_columns_are_not_errors [OF a1 s1 w1 v1, of ex_castFloat64 22]
  obtain q' where r1: "snd (execute ex_castString ex_castFloat64 22 Background ?q) = Some q'"
    "err q' = None"
    by blast
  from missing_columns_are_not_errors [OF a2 s2 w2 v2, of ex_castFloat64 22]
  obtain p' where r2: "snd (execute ex_castString ex_castFloat64 22 Background ?p) = Some p'"
    "err p' = None"
    by blast
  have e1: "snd (execute ex_castString ex_castFloat64 22 Background ?q) =
     Some (?q\<lparr>result := [ex_sample [] 100, ex_sample [] 200], err := None\<rparr>)"
    by (simp add: ex_defs ex_rows_nolabel_def eval_defs)
  have e2: "snd (execute ex_castString ex_castFloat64 22 Background ?p) =
     Some (?p\<lparr>result := [], err := None\<rparr>)"
    by (simp add: ex_defs ex_rows_nometric_def eval_defs)
  from r1 r2 e1 e2 show ?thesis by simp
qed

subsection \<open>Discovery\<close>

lemma CreateServer_frame:
  "server (CreateServer RD NS e n) = server e"
  "excludeDatabase (CreateServer RD NS e n) = excludeDatabase e"
  "includeDatabase (CreateServer RD NS e n) = includeDatabase e"
  "servers (CreateServer RD NS e n) =
     AList.update n ((NS (RD (dsn e) n) (queries e) (Exporter.constLabels e) (disableCache e)
                        (tags e) (connectTimeout e))\<lparr>Forked := True\<rparr>) (servers e)"
  by (simp_all add: CreateServer_def Let_def)

lemma RemoveServer_frame:
  "server (RemoveServer e n) = server e"
  "excludeDatabase (RemoveServer e n) = excludeDatabase e"
  "includeDatabase (RemoveServer e n) = includeDatabase e"
  "servers (RemoveServer e n) = AList.delete n (servers e)"
  by (simp_all add: RemoveServer_def)

lemma OnDatabaseChange_frame:
  "server (OnDatabaseChange RD NS e change) = server e
   \<and> excludeDatabase (OnDatabaseChange RD NS e change) = excludeDatabase e
   \<and> includeDatabase (OnDatabaseChange RD NS e change) = includeDatabase e"
  by (induction change arbitrary: e) (auto simp: CreateServer_frame RemoveServer_frame)

lemma filter_key_update_other:
  "k \<noteq> n \<Longrightarrow> filter (\<lambda>(k', v). k' = n) (AList.update k v al) = filter (\<lambda>(k', v). k' = n) al"
  by (induction al) auto

lemma filter_key_delete_other:
  "k \<noteq> n \<Longrightarrow> filter (\<lambda>(k', v). k' = n) (AList.delete k al) = filter (\<lambda>(k', v). k' = n) al"
  by (induction al) auto

text \<open>
  C6. A database name that is the primary's, or is a key of the exclude map, or is not a key
  of a non-empty include map, keeps exactly the entries it had in the server map, whatever the
  change map says about it or about other names: no server is created or removed for it.
\<close>

theorem OnDatabaseChange_skips_filtered:
  assumes "dbname = Database (server e) \<or> dbname \<in> fst ` set (excludeDatabase e)
           \<or> (includeDatabase e \<noteq> [] \<and> dbname \<notin> fst ` set (includeDatabase e))"
  shows "filter (\<lambda>(k, v). k = dbname) (servers (OnDatabaseChange ReplaceDatname NewServer e change))
           = filter (\<lambda>(k, v). k = dbname) (servers e)
       \<and> map_of (servers (OnDatabaseChange ReplaceDatname NewServer e change)) dbname
           = map_of (servers e) dbname"
  using assms
proof (induction change arbitrary: e)
  case Nil
  then show ?case by simp
next
  case (Cons entry change)
  obtain n add where entry: "entry = (n, add)" by (cases entry)
  show ?case
  proof (cases "n = dbname")
    case True
    with Cons entry show ?thesis by (auto simp: map_of_eq_None_iff)
  next
    case False
    have c: "filter (\<lambda>(k, v). k = dbname) (servers (CreateServer ReplaceDatname NewServer e n))
               = filter (\<lambda>(k, v). k = dbname) (servers e)"
      using False by (simp add: CreateServer_frame filter_key_update_other)
    have r: "filter (\<lambda>(k, v). k = dbname) (servers (RemoveServer e n))
               = filter (\<lambda>(k, v). k = dbname) (servers e)"
      using False by (simp add: RemoveServer_frame filter_key_delete_other)
    have cm: "map_of (servers (CreateServer ReplaceDatname NewServer e n)) dbname
               = map_of (servers e) dbname"
      using False by (simp add: CreateServer_frame update_conv')
    have rm: "map_of (servers (RemoveServer e n)) dbname = map_of (servers e) dbname"
      using False by (simp add: RemoveServer_frame delete_conv')
    from Cons.prems
    have pc: "dbname = Database (server (CreateServer ReplaceDatname NewServer e n))
         \<or> dbname \<in> fst ` set (excludeDatabase (CreateServer ReplaceDatname NewServer e n))
         \<or> (includeDatabase (CreateServer ReplaceDatname NewServer e n) \<noteq> []
            \<and> dbname \<notin> fst ` set (includeDatabase (CreateServer ReplaceDatname NewServer e n)))"
      by (simp add: CreateServer_frame)
    from Cons.prems
    have pr: "dbname = Database (server (RemoveServer e n))
         \<or> dbname \<in> fst ` set (excludeDatabase (RemoveServer e n))
         \<or> (includeDatabase (RemoveServer e n) \<noteq> []
            \<and> dbname \<notin> fst ` set (includeDatabase (RemoveServer e n)))"
      by (simp add: RemoveServer_frame)
    show ?thesis
      using entry Cons.IH [OF Cons.prems] Cons.IH [OF pc] Cons.IH [OF pr] c r cm rm
      by simp
  qed
qed

text \<open>\<open>dbA\<close> is excluded: reported as added, alone or among others, it gets no server.\<close>

theorem OnDatabaseChange_skips_filtered_witness:
  "''dbA'' \<in> fst ` set (excludeDatabase (ex_exporter []))
   \<and> servers (OnDatabaseChange ex_ReplaceDatname ex_NewServer (ex_exporter []) [(''dbA'', True)]) = []
   \<and> map fst (servers (OnDatabaseChange ex_ReplaceDatname ex_NewServer (ex_exporter [])
                 [(''dbA'', True), (''dbB'', True), (''postgres'', True)])) = [''dbB'']
   \<and> map_of (servers (OnDatabaseChange ex_ReplaceDatname ex_NewServer (ex_exporter [])
                 [(''dbA'', True), (''dbB'', True), (''postgres'', True)])) ''dbA'' = None"
proof -
  have ex: "''dbA'' = Database (server (ex_exporter []))
            \<or> ''dbA'' \<in> fst ` set (excludeDatabase (ex_exporter []))
            \<or> (includeDatabase (ex_exporter []) \<noteq> []
                \<and> ''dbA'' \<notin> fst ` set (includeDatabase (ex_exporter [])))"
    by (simp add: ex_exporter_def)
  from OnDatabaseChange_skips_filtered [OF ex, of ex_ReplaceDatname ex_NewServer
         "[(''dbA'', True), (''dbB'', True), (''postgres'', True)]"]
  show ?thesis
    by (simp add: ex_exporter_def ex_server_def CreateServer_def ex_NewServer_def
                  ex_ReplaceDatname_def)
qed

lemma OnDatabaseChange_distinct:
  "distinct (map fst (servers e)) \<Longrightarrow>
     distinct (map fst (servers (OnDatabaseChange RD NS e change)))"
  by (induction change arbitrary: e)
     (auto simp: CreateServer_frame RemoveServer_frame distinct_update distinct_delete)

lemma OnDatabaseChange_adds_keys:
  assumes "\<forall>entry\<in>set change. snd entry"
  shows "fst ` set (servers (OnDatabaseChange RD NS e change)) =
           fst ` set (servers e)
           \<union> {n \<in> fst ` set change. n \<noteq> Database (server e)
                  \<and> n \<notin> fst ` set (excludeDatabase e)
                  \<and> (includeDatabase e = [] \<or> n \<in> fst ` set (includeDatabase e))}"
  using assms
proof (induction change arbitrary: e)
  case Nil
  then show ?case by simp
next
  case (Cons entry change)
  obtain n add where entry: "entry = (n, add)" by (cases entry)
  with Cons.prems have add: "add" and rest: "\<forall>entry\<in>set change. snd entry" by simp_all
  let ?acc = "\<lambda>n. n \<noteq> Database (server e) \<and> n \<notin> fst ` set (excludeDatabase e)
                  \<and> (includeDatabase e = [] \<or> n \<in> fst ` set (includeDatabase e))"
  show ?case
  proof (cases "?acc n")
    case False
    then have step: "OnDatabaseChange RD NS e (entry # change) = OnDatabaseChange RD NS e change"
      using entry by (auto simp: map_of_eq_None_iff)
    have "{m \<in> fst ` set (entry # change). ?acc m} = {m \<in> fst ` set change. ?acc m}"
      using False entry by auto
    with step Cons.IH [OF rest, of e] show ?thesis by simp
  next
    case True
    let ?e1 = "CreateServer RD NS e n"
    have step: "OnDatabaseChange RD NS e (entry # change) = OnDatabaseChange RD NS ?e1 change"
      using True entry add by (auto simp: map_of_eq_None_iff)
    have keys1: "fst ` set (servers ?e1) = insert n (fst ` set (servers e))"
      by (simp add: CreateServer_frame dom_update)
    have "{m \<in> fst ` set (entry # change). ?acc m} = insert n {m \<in> fst ` set change. ?acc m}"
      using True entry by auto
    with step keys1 Cons.IH [OF rest, of ?e1] show ?thesis
      by (simp add: CreateServer_frame)
  qed
qed

lemma OnDatabaseChange_adds_present:
  assumes "\<forall>entry\<in>set change. snd entry"
    and "\<forall>n\<in>fst ` set change. n \<noteq> Database (server e)
                  \<and> n \<notin> fst ` set (excludeDatabase e)
                  \<and> (includeDatabase e = [] \<or> n \<in> fst ` set (includeDatabase e))
            \<longrightarrow> n \<in> fst ` set (servers e)"
  shows "map fst (servers (OnDatabaseChange RD NS e change)) = map fst (servers e)"
  using assms
proof (induction change arbitrary: e)
  case Nil
  then show ?case by simp
next
  case (Cons entry change)
  obtain n add where entry: "entry = (n, add)" by (cases entry)
  with Cons.prems have add: "add" and rest: "\<forall>entry\<in>set change. snd entry" by simp_all
  show ?case
  proof (cases "n \<noteq> Database (server e) \<and> n \<notin> fst ` set (excludeDatabase e)
                  \<and> (includeDatabase e = [] \<or> n \<in> fst ` set (includeDatabase e))")
    case False
    then have "OnDatabaseChange RD NS e (entry # change) = OnDatabaseChange RD NS e change"
      using entry by (auto simp: map_of_eq_None_iff)
    moreover have "map fst (servers (OnDatabaseChange RD NS e change)) = map fst (servers e)"
      using Cons.IH [OF rest, of e] Cons.prems(2) by simp
    ultimately show ?thesis by simp
  next
    case True
    let ?e1 = "CreateServer RD NS e n"
    from True Cons.prems(2) entry have present: "n \<in> fst ` set (servers e)" by simp
    have keys1: "map fst (servers ?e1) = map fst (servers e)"
      using present by (simp add: CreateServer_frame update_keys)
    have step: "OnDatabaseChange RD NS e (entry # change) = OnDatabaseChange RD NS ?e1 change"
      using True entry add by (auto simp: map_of_eq_None_iff)
    have pre: "\<forall>n\<in>fst ` set change. n \<noteq> Database (server ?e1)
                  \<and> n \<notin> fst ` set (excludeDatabase ?e1)
                  \<and> (includeDatabase ?e1 = [] \<or> n \<in> fst ` set (includeDatabase ?e1))
            \<longrightarrow> n \<in> fst ` set (servers ?e1)"
    proof -
      have "fst ` set (servers ?e1) = fst ` set (servers e)"
        using keys1 by (metis set_map)
      then show ?thesis using Cons.prems(2) by (simp add: CreateServer_frame)
    qed
    from Cons.IH [OF rest pre] step keys1 show ?thesis by simp
  qed
qed

lemma one_entry_per_key:
  "distinct (map fst al) \<Longrightarrow> n \<in> fst ` set al \<Longrightarrow> length (filter (\<lambda>(k, v). k = n) al) = 1"
proof (induction al)
  case Nil
  then show ?case by simp
next
  case (Cons a al)
  obtain k v where a: "a = (k, v)" by (cases a)
  show ?case
  proof (cases "k = n")
    case True
    with Cons.prems a have "n \<notin> fst ` set al" by simp
    then have "filter (\<lambda>(k, v). k = n) al = []"
      by (force simp: filter_empty_conv)
    with True a show ?thesis by simp
  next
    case False
    with Cons a show ?thesis by auto
  qed
qed

text \<open>
  C7. Applying a change map of added names twice leaves the keys of the server map as the
  first application left them, with no key twice, and each added name that passes the filters
  has exactly one entry. Removing a name that is not a key of the server map leaves the
  exporter as it is, through \<open>RemoveServer\<close> and through the discovery handler.
\<close>

theorem discovery_is_idempotent:
  assumes adds: "\<forall>entry\<in>set change. snd entry"
    and inv: "distinct (map fst (servers e))"
  shows "map fst (servers (OnDatabaseChange ReplaceDatname NewServer
                   (OnDatabaseChange ReplaceDatname NewServer e change) change))
           = map fst (servers (OnDatabaseChange ReplaceDatname NewServer e change))
     \<and> distinct (map fst (servers (OnDatabaseChange ReplaceDatname NewServer
                   (OnDatabaseChange ReplaceDatname NewServer e change) change)))
     \<and> (\<forall>n\<in>fst ` set change.
           n \<noteq> Database (server e) \<and> n \<notin> fst ` set (excludeDatabase e)
           \<and> (includeDatabase e = [] \<or> n \<in> fst ` set (includeDatabase e)) \<longrightarrow>
           length (filter (\<lambda>(k, v). k = n)
                     (servers (OnDatabaseChange ReplaceDatname NewServer
                        (OnDatabaseChange ReplaceDatname NewServer e change) change))) = 1)
     \<and> (\<forall>dbname. dbname \<notin> fst ` set (servers e) \<longrightarrow>
           RemoveServer e dbname = e
           \<and> OnDatabaseChange ReplaceDatname NewServer e [(dbname, False)] = e)"
proof -
  let ?e1 = "OnDatabaseChange ReplaceDatname NewServer e change"
  let ?e2 = "OnDatabaseChange ReplaceDatname NewServer ?e1 change"
  note fr = OnDatabaseChange_frame [of ReplaceDatname NewServer e change]
  have keys1: "fst ` set (servers ?e1) =
           fst ` set (servers e)
           \<union> {n \<in> fst ` set change. n \<noteq> Database (server e)
                  \<and> n \<notin> fst ` set (excludeDatabase e)
                  \<and> (includeDatabase e = [] \<or> n \<in> fst ` set (includeDatabase e))}"
    by (rule OnDatabaseChange_adds_keys [OF adds])
  have pre: "\<forall>n\<in>fst ` set change. n \<noteq> Database (server ?e1)
                  \<and> n \<notin> fst ` set (excludeDatabase ?e1)
                  \<and> (includeDatabase ?e1 = [] \<or> n \<in> fst ` set (includeDatabase ?e1))
            \<longrightarrow> n \<in> fst ` set (servers ?e1)"
    using keys1 fr by simp
  have same: "map fst (servers ?e2) = map fst (servers ?e1)"
    by (rule OnDatabaseChange_adds_present [OF adds pre])
  have d1: "distinct (map fst (servers ?e1))"
    by (rule OnDatabaseChange_distinct [OF inv])
  have d2: "distinct (map fst (servers ?e2))"
    using same d1 by simp
  have one: "\<forall>n\<in>fst ` set change.
           n \<noteq> Database (server e) \<and> n \<notin> fst ` set (excludeDatabase e)
           \<and> (includeDatabase e = [] \<or> n \<in> fst ` set (includeDatabase e)) \<longrightarrow>
           length (filter (\<lambda>(k, v). k = n) (servers ?e2)) = 1"
  proof (intro ballI impI)
    fix n assume "n \<in> fst ` set change"
      and "n \<noteq> Database (server e) \<and> n \<notin> fst ` set (excludeDatabase e)
           \<and> (includeDatabase e = [] \<or> n \<in> fst ` set (includeDatabase e))"
    with keys1 have "n \<in> fst ` set (servers ?e1)" by blast
    then have "n \<in> set (map fst (servers ?e2))" using same by simp
    then have "n \<in> fst ` set (servers ?e2)" by simp
    with d2 show "length (filter (\<lambda>(k, v). k = n) (servers ?e2)) = 1"
      by (rule one_entry_per_key)
  qed
  have rem: "\<forall>dbname. dbname \<notin> fst ` set (servers e) \<longrightarrow>
           RemoveServer e dbname = e
           \<and> OnDatabaseChange ReplaceDatname NewServer e [(dbname, False)] = e"
    by (simp add: RemoveServer_def)
  from same d2 one rem show ?thesis by blast
qed

theorem discovery_is_idempotent_witness:
  "map fst (servers (OnDatabaseChange ex_ReplaceDatname ex_NewServer (ex_exporter [])
                       [(''dbB'', True), (''dbC'', True)])) = [''dbB'', ''dbC'']
   \<and> map fst (servers (OnDatabaseChange ex_ReplaceDatname ex_NewServer
                 (OnDatabaseChange ex_ReplaceDatname ex_NewServer (ex_exporter [])
                    [(''dbB'', True), (''dbC'', True)])
                 [(''dbB'', True), (''dbC'', True)])) = [''dbB'', ''dbC'']
   \<and> ''dbZ'' \<notin> fst ` set (servers (ex_exporter []))
   \<and> RemoveServer (ex_exporter []) ''dbZ'' = ex_exporter []"
proof -
  have adds: "\<forall>entry\<in>set [(''dbB'', True), (''dbC'', True)]. snd entry"
    by simp
  have inv: "distinct (map fst (servers (ex_exporter [])))"
    by (simp add: ex_exporter_def)
  have first: "map fst (servers (OnDatabaseChange ex_ReplaceDatname ex_NewServer (ex_exporter [])
                       [(''dbB'', True), (''dbC'', True)])) = [''dbB'', ''dbC'']"
    by (simp add: ex_exporter_def ex_server_def CreateServer_def ex_NewServer_def
                  ex_ReplaceDatname_def)
  note idem = discovery_is_idempotent [OF adds inv, of ex_ReplaceDatname ex_NewServer]
  from idem have same:
    "map fst (servers (OnDatabaseChange ex_ReplaceDatname ex_NewServer
                 (OnDatabaseChange ex_ReplaceDatname ex_NewServer (ex_exporter [])
                    [(''dbB'', True), (''dbC'', True)])
                 [(''dbB'', True), (''dbC'', True)]))
     = map fst (servers (OnDatabaseChange ex_ReplaceDatname ex_NewServer (ex_exporter [])
                    [(''dbB'', True), (''dbC'', True)]))"
    by (rule conjunct1)
  have absent: "''dbZ'' \<notin> fst ` set (servers (ex_exporter []))"
    by (simp add: ex_exporter_def)
  from idem absent have rem: "RemoveServer (ex_exporter []) ''dbZ'' = ex_exporter []"
    by blast
  from same first absent rem show ?thesis
    by simp
qed

subsection \<open>The gauge vectors of the servers and the queries\<close>

lemma dom_set_query_gauges:
  "dom (set_query_gauges db al v) = dom v \<union> (\<lambda>n. [db, n]) ` fst ` set al"
proof (induction al arbitrary: v)
  case Nil
  then show ?case by simp
next
  case (Cons a al)
  obtain n c where a: "a = (n, c)" by (cases a)
  have "dom (set_query_gauges db (a # al) v) =
          dom (set_query_gauges db al (v([db, n] \<mapsto> c)))"
    using a by (simp add: GaugeVec_Set_def)
  also have "\<dots> = dom (v([db, n] \<mapsto> c)) \<union> (\<lambda>n. [db, n]) ` fst ` set al"
    by (rule Cons.IH)
  also have "\<dots> = dom v \<union> (\<lambda>n. [db, n]) ` fst ` set (a # al)"
    using a by simp
  finally show ?case .
qed

lemma collectServerMetrics_server_doms:
  "dom (serverScrapeDuration (collectServerMetrics_server s e)) =
     insert [Database s] (dom (serverScrapeDuration e))"
  "dom (serverScrapeTotalSeconds (collectServerMetrics_server s e)) =
     insert [Database s] (dom (serverScrapeTotalSeconds e))"
  "dom (serverScrapeTotalCount (collectServerMetrics_server s e)) =
     insert [Database s] (dom (serverScrapeTotalCount e))"
  "dom (serverScrapeErrorCount (collectServerMetrics_server s e)) =
     (if Error s \<noteq> None then {[Database s]} else {}) \<union> dom (serverScrapeErrorCount e)"
  "dom (Exporter.queryCacheTTL (collectServerMetrics_server s e)) =
     dom (Exporter.queryCacheTTL e)
     \<union> (\<lambda>n. [Database s, n]) ` fst ` set (Server.queryCacheTTL s)"
  "dom (Exporter.queryScrapeTotalCount (collectServerMetrics_server s e)) =
     dom (Exporter.queryScrapeTotalCount e)
     \<union> (\<lambda>n. [Database s, n]) ` fst ` set (Server.queryScrapeTotalCount s)"
  "dom (Exporter.queryScrapeHitCount (collectServerMetrics_server s e)) =
     dom (Exporter.queryScrapeHitCount e)
     \<union> (\<lambda>n. [Database s, n]) ` fst ` set (Server.queryScrapeHitCount s)"
  "dom (Exporter.queryScrapeErrorCount (collectServerMetrics_server s e)) =
     dom (Exporter.queryScrapeErrorCount e)
     \<union> (\<lambda>n. [Database s, n]) ` fst ` set (Server.queryScrapeErrorCount s)"
  "dom (Exporter.queryScrapeMetricCount (collectServerMetrics_server s e)) =
     dom (Exporter.queryScrapeMetricCount e)
     \<union> (\<lambda>n. [Database s, n]) ` fst ` set (Server.queryScrapeMetricCount s)"
  "dom (Exporter.queryScrapeDuration (collectServerMetrics_server s e)) =
     dom (Exporter.queryScrapeDuration e)
     \<union> (\<lambda>n. [Database s, n]) ` fst ` set (Server.queryScrapeDuration s)"
  by (simp_all add: collectServerMetrics_server_def Let_def GaugeVec_Set_def GaugeVec_Add_def
        dom_set_query_gauges)

lemma loop_dom_serverScrapeDuration:
  "dom (serverScrapeDuration (collectServerMetrics_loop ss e)) =
     dom (serverScrapeDuration e) \<union> (\<lambda>s. [Database s]) ` set ss"
  by (induction ss arbitrary: e) (simp_all add: collectServerMetrics_server_doms)

lemma loop_dom_serverScrapeTotalSeconds:
  "dom (serverScrapeTotalSeconds (collectServerMetrics_loop ss e)) =
     dom (serverScrapeTotalSeconds e) \<union> (\<lambda>s. [Database s]) ` set ss"
  by (induction ss arbitrary: e) (simp_all add: collectServerMetrics_server_doms)

lemma loop_dom_serverScrapeTotalCount:
  "dom (serverScrapeTotalCount (collectServerMetrics_loop ss e)) =
     dom (serverScrapeTotalCount e) \<union> (\<lambda>s. [Database s]) ` set ss"
  by (induction ss arbitrary: e) (simp_all add: collectServerMetrics_server_doms)

lemma loop_dom_serverScrapeErrorCount:
  "dom (serverScrapeErrorCount (collectServerMetrics_loop ss e)) =
     dom (serverScrapeErrorCount e) \<union> (\<lambda>s. [Database s]) ` {s \<in> set ss. Error s \<noteq> None}"
  by (induction ss arbitrary: e) (auto simp: collectServerMetrics_server_doms)

lemma loop_dom_queryCacheTTL:
  "dom (Exporter.queryCacheTTL (collectServerMetrics_loop ss e)) =
     dom (Exporter.queryCacheTTL e)
     \<union> (\<Union>s\<in>set ss. (\<lambda>n. [Database s, n]) ` fst ` set (Server.queryCacheTTL s))"
  by (induction ss arbitrary: e) (simp_all add: collectServerMetrics_server_doms Un_assoc)

lemma loop_dom_queryScrapeTotalCount:
  "dom (Exporter.queryScrapeTotalCount (collectServerMetrics_loop ss e)) =
     dom (Exporter.queryScrapeTotalCount e)
     \<union> (\<Union>s\<in>set ss. (\<lambda>n. [Database s, n]) ` fst ` set (Server.queryScrapeTotalCount s))"
  by (induction ss arbitrary: e) (simp_all add: collectServerMetrics_server_doms Un_assoc)

lemma loop_dom_queryScrapeHitCount:
  "dom (Exporter.queryScrapeHitCount (collectServerMetrics_loop ss e)) =
     dom (Exporter.queryScrapeHitCount e)
     \<union> (\<Union>s\<in>set ss. (\<lambda>n. [Database s, n]) ` fst ` set (Server.queryScrapeHitCount s))"
  by (induction ss arbitrary: e) (simp_all add: collectServerMetrics_server_doms Un_assoc)

lemma loop_dom_queryScrapeErrorCount:
  "dom (Exporter.queryScrapeErrorCount (collectServerMetrics_loop ss e)) =
     dom (Exporter.queryScrapeErrorCount e)
     \<union> (\<Union>s\<in>set ss. (\<lambda>n. [Database s, n]) ` fst ` set (Server.queryScrapeErrorCount s))"
  by (induction ss arbitrary: e) (simp_all add: collectServerMetrics_server_doms Un_assoc)

lemma loop_dom_queryScrapeMetricCount:
  "dom (Exporter.queryScrapeMetricCount (collectServerMetrics_loop ss e)) =
     dom (Exporter.queryScrapeMetricCount e)
     \<union> (\<Union>s\<in>set ss. (\<lambda>n. [Database s, n]) ` fst ` set (Server.queryScrapeMetricCount s))"
  by (induction ss arbitrary: e) (simp_all add: collectServerMetrics_server_doms Un_assoc)

lemma loop_dom_queryScrapeDuration:
  "dom (Exporter.queryScrapeDuration (collectServerMetrics_loop ss e)) =
     dom (Exporter.queryScrapeDuration e)
     \<union> (\<Union>s\<in>set ss. (\<lambda>n. [Database s, n]) ` fst ` set (Server.queryScrapeDuration s))"
  by (induction ss arbitrary: e) (simp_all add: collectServerMetrics_server_doms Un_assoc)

lemmas loop_doms = loop_dom_serverScrapeDuration loop_dom_serverScrapeTotalSeconds
  loop_dom_serverScrapeTotalCount loop_dom_serverScrapeErrorCount loop_dom_queryCacheTTL
  loop_dom_queryScrapeTotalCount loop_dom_queryScrapeHitCount loop_dom_queryScrapeErrorCount
  loop_dom_queryScrapeMetricCount loop_dom_queryScrapeDuration

text \<open>
  C8. After \<open>collectServerMetrics\<close>, which every scrape of the exporter runs, the children of
  each per-server gauge vector are exactly the database names of the servers known now (the
  discovered ones and the primary; for the error count, those with an error), and the children
  of each per-query gauge vector are exactly the pairs of such a database name and a query name
  of that server's map, whatever the vectors held before: a label combination of a server or
  query that is gone is not among them.
\<close>

theorem collectServerMetrics_no_stale_labels:
  "dom (serverScrapeDuration (collectServerMetrics e)) =
     (\<lambda>s. [Database s]) ` set (IterateServer e @ [server e])
   \<and> dom (serverScrapeTotalSeconds (collectServerMetrics e)) =
     (\<lambda>s. [Database s]) ` set (IterateServer e @ [server e])
   \<and> dom (serverScrapeTotalCount (collectServerMetrics e)) =
     (\<lambda>s. [Database s]) ` set (IterateServer e @ [server e])
   \<and> dom (serverScrapeErrorCount (collectServerMetrics e)) =
     (\<lambda>s. [Database s]) ` {s \<in> set (IterateServer e @ [server e]). Error s \<noteq> None}
   \<and> dom (Exporter.queryCacheTTL (collectServerMetrics e)) =
     (\<Union>s\<in>set (IterateServer e @ [server e]).
        (\<lambda>n. [Database s, n]) ` fst ` set (Server.queryCacheTTL s))
   \<and> dom (Exporter.queryScrapeTotalCount (collectServerMetrics e)) =
     (\<Union>s\<in>set (IterateServer e @ [server e]).
        (\<lambda>n. [Database s, n]) ` fst ` set (Server.queryScrapeTotalCount s))
   \<and> dom (Exporter.queryScrapeHitCount (collectServerMetrics e)) =
     (\<Union>s\<in>set (IterateServer e @ [server e]).
        (\<lambda>n. [Database s, n]) ` fst ` set (Server.queryScrapeHitCount s))
   \<and> dom (Exporter.queryScrapeErrorCount (collectServerMetrics e)) =
     (\<Union>s\<in>set (IterateServer e @ [server e]).
        (\<lambda>n. [Database s, n]) ` fst ` set (Server.queryScrapeErrorCount s))
   \<and> dom (Exporter.queryScrapeMetricCount (collectServerMetrics e)) =
     (\<Union>s\<in>set (IterateServer e @ [server e]).
        (\<lambda>n. [Database s, n]) ` fst ` set (Server.queryScrapeMetricCount s))
   \<and> dom (Exporter.queryScrapeDuration (collectServerMetrics e)) =
     (\<Union>s\<in>set (IterateServer e @ [server e]).
        (\<lambda>n. [Database s, n]) ` fst ` set (Server.queryScrapeDuration s))"
  unfolding collectServerMetrics_def Let_def loop_doms
  by (simp add: GaugeVec_Reset_def IterateServer_def)

text \<open>Stale children \<open>gone\<close> are dropped; the discovered server \<open>dbB\<close> and the primary
  remain.\<close>

theorem collectServerMetrics_no_stale_labels_witness:
  "[''gone''] \<in> dom (serverScrapeDuration (ex_exporter [(''dbB'', ex_peripheral)]))
   \<and> dom (serverScrapeDuration (collectServerMetrics (ex_exporter [(''dbB'', ex_peripheral)])))
       = {[''dbB''], [''postgres'']}
   \<and> dom (serverScrapeErrorCount (collectServerMetrics (ex_exporter [(''dbB'', ex_peripheral)])))
       = {}
   \<and> [''gone'', ''q''] \<in> dom (Exporter.queryCacheTTL (ex_exporter [(''dbB'', ex_peripheral)]))
   \<and> dom (Exporter.queryCacheTTL (collectServerMetrics (ex_exporter [(''dbB'', ex_peripheral)])))
       = {[''dbB'', ''db_size'']}"
proof -
  let ?e = "ex_exporter [(''dbB'', ex_peripheral)]"
  note doms = collectServerMetrics_no_stale_labels [of ?e]
  have known: "IterateServer ?e @ [server ?e] = [ex_peripheral, ex_server False (Inr ex_rows)]"
    by (simp add: ex_exporter_def IterateServer_def)
  have stale: "[''gone''] \<in> dom (serverScrapeDuration ?e)"
    "[''gone'', ''q''] \<in> dom (Exporter.queryCacheTTL ?e)"
    by (simp_all add: ex_exporter_def)
  have d1: "dom (serverScrapeDuration (collectServerMetrics ?e)) = {[''dbB''], [''postgres'']}"
    unfolding doms [THEN conjunct1] known
    by (simp add: ex_peripheral_def ex_server_def)
  have d4: "dom (serverScrapeErrorCount (collectServerMetrics ?e)) = {}"
    unfolding doms [THEN conjunct2, THEN conjunct2, THEN conjunct2, THEN conjunct1] known
    by (auto simp: ex_peripheral_def ex_server_def)
  have d5: "dom (Exporter.queryCacheTTL (collectServerMetrics ?e)) = {[''dbB'', ''db_size'']}"
    unfolding doms [THEN conjunct2, THEN conjunct2, THEN conjunct2, THEN conjunct2,
                    THEN conjunct1] known
    by (simp add: ex_peripheral_def ex_server_def)
  from stale d1 d4 d5 show ?thesis by blast
qed

end
